theory Spec2Isabelle
  imports Main
begin

section \<open>Python values, classes and the object store\<close>

text \<open>
  The module \<^verbatim>\<open>tf2_ros/buffer_interface.py\<close> works on Python objects: it reads
  \<^verbatim>\<open>type(a)\<close>, tests \<^verbatim>\<open>isinstance(a, b_type)\<close>, reads and writes the attribute
  \<^verbatim>\<open>header\<close>, copies with \<^verbatim>\<open>deepcopy\<close>, and calls functions that other modules
  registered. Objects therefore live in a store and are passed by address; a class is its
  qualified name together with its base classes.
\<close>

type_synonym addr = nat

text \<open>A registered callable is a function object; \<open>fid\<close> is its identity.\<close>

type_synonym fid = nat

datatype cls = Cls (cname: string) (bases: "cls list")

fun ancestors :: "cls \<Rightarrow> cls list" where
  "ancestors (Cls n bs) = Cls n bs # concat (map ancestors bs)"

definition issubclass :: "cls \<Rightarrow> cls \<Rightarrow> bool" where
  "issubclass c t = (t \<in> set (ancestors c))"

datatype pyval = VNone | VBool bool | VInt int | VStr string | VRef addr

record pyobj =
  obj_cls :: cls
  attrs :: "(string \<times> pyval) list"

text \<open>
  \<open>TypeException\<close> and \<open>NotImplementedException\<close> are the two exception classes of the
  module. \<open>AttributeError\<close> is what Python raises for a missing attribute.
  \<open>ExternalError\<close> stands for any other exception that a registered callable or the
  buffer raises, and \<open>InvalidReference\<close> is the answer of the model where an address
  outside the store is dereferenced, which no Python program can do.
\<close>

datatype exn =
    TypeException string
  | NotImplementedException
  | AttributeError string
  | ExternalError string
  | InvalidReference

type_synonym 'a result = "exn + 'a"

text \<open>
  The four dictionaries are class attributes (\<^verbatim>\<open>TransformRegistration.__type_map\<close>,
  \<^verbatim>\<open>ConvertRegistration.__to_msg_map\<close>, \<^verbatim>\<open>__from_msg_map\<close>, \<^verbatim>\<open>__convert_map\<close>):
  there is one of each in the process, next to the object store.
\<close>

record state =
  heap :: "pyobj list"
  type_map :: "cls \<rightharpoonup> fid"
  to_msg_map :: "cls \<rightharpoonup> fid"
  from_msg_map :: "cls \<rightharpoonup> fid"
  convert_map :: "cls \<times> cls \<rightharpoonup> fid"

text \<open>
  What a registered callable does when it is called: it gets the addresses of its
  arguments and the state, and returns an object or raises, with the state it leaves.
\<close>

type_synonym calls = "fid \<Rightarrow> addr list \<Rightarrow> state \<Rightarrow> addr result \<times> state"

definition lookup_obj :: "state \<Rightarrow> addr \<Rightarrow> pyobj option" where
  "lookup_obj s a = (if a < length (heap s) then Some (heap s ! a) else None)"

definition py_type :: "state \<Rightarrow> addr \<Rightarrow> cls result" where
  "py_type s a = (case lookup_obj s a of None \<Rightarrow> Inl InvalidReference | Some ob \<Rightarrow> Inr (obj_cls ob))"

definition isinstance :: "state \<Rightarrow> addr \<Rightarrow> cls \<Rightarrow> bool" where
  "isinstance s a t = (case lookup_obj s a of None \<Rightarrow> False | Some ob \<Rightarrow> issubclass (obj_cls ob) t)"

definition getattr :: "state \<Rightarrow> pyval \<Rightarrow> string \<Rightarrow> pyval result" where
  "getattr s v name =
     (case v of
        VRef a \<Rightarrow>
          (case lookup_obj s a of
             None \<Rightarrow> Inl InvalidReference
           | Some ob \<Rightarrow>
               (case map_of (attrs ob) name of
                  None \<Rightarrow> Inl (AttributeError name)
                | Some w \<Rightarrow> Inr w))
      | _ \<Rightarrow> Inl (AttributeError name))"

fun set_attr :: "string \<Rightarrow> pyval \<Rightarrow> (string \<times> pyval) list \<Rightarrow> (string \<times> pyval) list" where
  "set_attr k v [] = [(k, v)]"
| "set_attr k v ((k', v') # kvs) =
     (if k = k' then (k, v) # kvs else (k', v') # set_attr k v kvs)"

definition setattr :: "addr \<Rightarrow> string \<Rightarrow> pyval \<Rightarrow> state \<Rightarrow> unit result \<times> state" where
  "setattr a name v s =
     (case lookup_obj s a of
        None \<Rightarrow> (Inl InvalidReference, s)
      | Some ob \<Rightarrow>
          (Inr (), s\<lparr>heap := (heap s)[a := ob\<lparr>attrs := set_attr name v (attrs ob)\<rparr>]\<rparr>))"

section \<open>Text of a key in an error message\<close>

text \<open>\<^verbatim>\<open>str(key)\<close> of a class, and of a pair of classes.\<close>

definition str_cls :: "cls \<Rightarrow> string" where
  "str_cls c = ''<class '' @ [CHR 0x27] @ cname c @ [CHR 0x27] @ ''>''"

definition str_pair :: "cls \<times> cls \<Rightarrow> string" where
  "str_pair k = ''('' @ str_cls (fst k) @ '', '' @ str_cls (snd k) @ '')''"

definition not_loaded :: "string \<Rightarrow> exn" where
  "not_loaded k = TypeException (''Type '' @ k @ '' is not loaded or supported'')"

section \<open>TransformRegistration and ConvertRegistration\<close>

text \<open>
  Neither class has an \<^verbatim>\<open>__init__\<close> or an instance attribute: an instance is only its
  identity, and every method reads and writes the dictionaries of the class.
\<close>

type_synonym inst = nat

definition TransformRegistration_add :: "inst \<Rightarrow> cls \<Rightarrow> fid \<Rightarrow> state \<Rightarrow> unit result \<times> state" where
  "TransformRegistration_add self key callback s =
     (Inr (), s\<lparr>type_map := (type_map s)(key \<mapsto> callback)\<rparr>)"

definition TransformRegistration_get :: "inst \<Rightarrow> cls \<Rightarrow> state \<Rightarrow> fid result" where
  "TransformRegistration_get self key s =
     (case type_map s key of
        None \<Rightarrow> Inl (not_loaded (str_cls key))
      | Some callback \<Rightarrow> Inr callback)"

definition add_from_msg :: "inst \<Rightarrow> cls \<Rightarrow> fid \<Rightarrow> state \<Rightarrow> unit result \<times> state" where
  "add_from_msg self key callback s =
     (Inr (), s\<lparr>from_msg_map := (from_msg_map s)(key \<mapsto> callback)\<rparr>)"

definition add_to_msg :: "inst \<Rightarrow> cls \<Rightarrow> fid \<Rightarrow> state \<Rightarrow> unit result \<times> state" where
  "add_to_msg self key callback s =
     (Inr (), s\<lparr>to_msg_map := (to_msg_map s)(key \<mapsto> callback)\<rparr>)"

definition add_convert :: "inst \<Rightarrow> cls \<times> cls \<Rightarrow> fid \<Rightarrow> state \<Rightarrow> unit result \<times> state" where
  "add_convert self key callback s =
     (Inr (), s\<lparr>convert_map := (convert_map s)(key \<mapsto> callback)\<rparr>)"

definition get_from_msg :: "inst \<Rightarrow> cls \<Rightarrow> state \<Rightarrow> fid result" where
  "get_from_msg self key s =
     (case from_msg_map s key of
        None \<Rightarrow> Inl (not_loaded (str_cls key))
      | Some callback \<Rightarrow> Inr callback)"

definition get_to_msg :: "inst \<Rightarrow> cls \<Rightarrow> state \<Rightarrow> fid result" where
  "get_to_msg self key s =
     (case to_msg_map s key of
        None \<Rightarrow> Inl (not_loaded (str_cls key))
      | Some callback \<Rightarrow> Inr callback)"

definition get_convert :: "inst \<Rightarrow> cls \<times> cls \<Rightarrow> state \<Rightarrow> fid result" where
  "get_convert self key s =
     (case convert_map s key of
        None \<Rightarrow> Inl (not_loaded (str_pair key))
      | Some callback \<Rightarrow> Inr callback)"

section \<open>deepcopy\<close>

text \<open>
  \<^verbatim>\<open>copy.deepcopy\<close> of the standard library, for instances that keep their state in
  attributes: a value that is not an object is returned as it is; an object already in
  the memo gives the copy recorded there; any other object gets a new empty instance of
  its class, which is entered in the memo before the attribute values are copied in
  order and stored in it. The recursion is bounded by fuel; \<open>None\<close> is fuel exhausted or
  an address outside the store.
\<close>

type_synonym memo = "addr \<rightharpoonup> addr"

fun copy_attrs ::
  "(pyobj list \<Rightarrow> memo \<Rightarrow> pyval \<Rightarrow> (pyobj list \<times> memo \<times> pyval) option) \<Rightarrow>
   pyobj list \<Rightarrow> memo \<Rightarrow> (string \<times> pyval) list \<Rightarrow>
   (pyobj list \<times> memo \<times> (string \<times> pyval) list) option" where
  "copy_attrs f H m [] = Some (H, m, [])"
| "copy_attrs f H m ((k, v) # kvs) =
     (case f H m v of
        None \<Rightarrow> None
      | Some (H1, m1, v') \<Rightarrow>
          (case copy_attrs f H1 m1 kvs of
             None \<Rightarrow> None
           | Some (H2, m2, kvs') \<Rightarrow> Some (H2, m2, (k, v') # kvs')))"

primrec deepcopy_fuel ::
  "nat \<Rightarrow> pyobj list \<Rightarrow> memo \<Rightarrow> pyval \<Rightarrow> (pyobj list \<times> memo \<times> pyval) option" where
  "deepcopy_fuel 0 H m v = None"
| "deepcopy_fuel (Suc n) H m v =
     (case v of
        VRef a \<Rightarrow>
          (case m a of
             Some b \<Rightarrow> Some (H, m, VRef b)
           | None \<Rightarrow>
               if a < length H then
                 (let ob = H ! a;
                      b = length H;
                      H1 = H @ [ob\<lparr>attrs := []\<rparr>];
                      m1 = m(a \<mapsto> b)
                  in case copy_attrs (deepcopy_fuel n) H1 m1 (attrs ob) of
                       None \<Rightarrow> None
                     | Some (H2, m2, kvs) \<Rightarrow> Some (H2[b := ob\<lparr>attrs := kvs\<rparr>], m2, VRef b))
               else None)
      | _ \<Rightarrow> Some (H, m, v))"

definition deepcopy :: "addr \<Rightarrow> state \<Rightarrow> addr result \<times> state" where
  "deepcopy a s =
     (case deepcopy_fuel (Suc (length (heap s))) (heap s) Map.empty (VRef a) of
        Some (H, m, VRef b) \<Rightarrow> (Inr b, s\<lparr>heap := H\<rparr>)
      | _ \<Rightarrow> (Inl InvalidReference, s))"

section \<open>convert\<close>

text \<open>
  The instance that \<^verbatim>\<open>convert\<close> makes with \<^verbatim>\<open>ConvertRegistration()\<close>; which identity
  it gets is immaterial, no method reads \<^verbatim>\<open>self\<close>.
\<close>

definition ConvertRegistration_new :: inst where
  "ConvertRegistration_new = 0"

text \<open>The body of the \<^verbatim>\<open>except TypeException\<close> handler.\<close>

definition convert_except :: "calls \<Rightarrow> inst \<Rightarrow> addr \<Rightarrow> cls \<Rightarrow> state \<Rightarrow> addr result \<times> state" where
  "convert_except call c a b_type s =
     (if isinstance s a b_type then deepcopy a s
      else
        (case py_type s a of
           Inl e \<Rightarrow> (Inl e, s)
         | Inr ta \<Rightarrow>
             (case get_to_msg c ta s of
                Inl e \<Rightarrow> (Inl e, s)
              | Inr f_to \<Rightarrow>
                  (case get_from_msg c b_type s of
                     Inl e \<Rightarrow> (Inl e, s)
                   | Inr f_from \<Rightarrow>
                       (case call f_to [a] s of
                          (Inl e, s1) \<Rightarrow> (Inl e, s1)
                        | (Inr msg, s1) \<Rightarrow> call f_from [msg] s1)))))"

text \<open>
  The \<^verbatim>\<open>try\<close> block holds both the lookup and the call \<^verbatim>\<open>f(a)\<close>: a \<open>TypeException\<close>
  from either enters the handler, any other exception of \<^verbatim>\<open>f(a)\<close> propagates.
\<close>

definition convert :: "calls \<Rightarrow> addr \<Rightarrow> cls \<Rightarrow> state \<Rightarrow> addr result \<times> state" where
  "convert call a b_type s =
     (let c = ConvertRegistration_new in
      case py_type s a of
        Inl e \<Rightarrow> (Inl e, s)
      | Inr ta \<Rightarrow>
          (case get_convert c (ta, b_type) s of
             Inl (TypeException _) \<Rightarrow> convert_except call c a b_type s
           | Inl e \<Rightarrow> (Inl e, s)
           | Inr f \<Rightarrow>
               (case call f [a] s of
                  (Inl (TypeException _), s1) \<Rightarrow> convert_except call c a b_type s1
                | (Inl e, s1) \<Rightarrow> (Inl e, s1)
                | (Inr r, s1) \<Rightarrow> (Inr r, s1))))"

section \<open>BufferInterface\<close>

text \<open>
  An instance of \<^verbatim>\<open>BufferInterface\<close> or of a subclass: the attribute
  \<^verbatim>\<open>registration\<close> set by \<^verbatim>\<open>__init__\<close>, and the four methods a subclass overrides.
\<close>

record buffer_interface =
  registration :: inst
  lookup_transform :: "string \<Rightarrow> pyval \<Rightarrow> pyval \<Rightarrow> pyval \<Rightarrow> state \<Rightarrow> addr result \<times> state"
  lookup_transform_full ::
    "string \<Rightarrow> pyval \<Rightarrow> pyval \<Rightarrow> pyval \<Rightarrow> string \<Rightarrow> pyval \<Rightarrow> state \<Rightarrow> addr result \<times> state"
  can_transform :: "string \<Rightarrow> string \<Rightarrow> pyval \<Rightarrow> pyval \<Rightarrow> state \<Rightarrow> bool result \<times> state"
  can_transform_full ::
    "string \<Rightarrow> pyval \<Rightarrow> string \<Rightarrow> pyval \<Rightarrow> string \<Rightarrow> pyval \<Rightarrow> state \<Rightarrow> bool result \<times> state"

text \<open>The class itself: every method to be overridden raises.\<close>

definition BufferInterface :: "inst \<Rightarrow> buffer_interface" where
  "BufferInterface r =
     \<lparr>registration = r,
      lookup_transform = (\<lambda>_ _ _ _ s. (Inl NotImplementedException, s)),
      lookup_transform_full = (\<lambda>_ _ _ _ _ _ s. (Inl NotImplementedException, s)),
      can_transform = (\<lambda>_ _ _ _ s. (Inl NotImplementedException, s)),
      can_transform_full = (\<lambda>_ _ _ _ _ _ s. (Inl NotImplementedException, s))\<rparr>"

text \<open>\<^verbatim>\<open>object_stamped.header.<name>\<close>\<close>

definition header_field :: "state \<Rightarrow> addr \<Rightarrow> string \<Rightarrow> pyval result" where
  "header_field s a name =
     (case getattr s (VRef a) ''header'' of
        Inl e \<Rightarrow> Inl e
      | Inr h \<Rightarrow> getattr s h name)"

definition transform ::
  "calls \<Rightarrow> buffer_interface \<Rightarrow> addr \<Rightarrow> string \<Rightarrow> pyval \<Rightarrow> cls option \<Rightarrow> state \<Rightarrow>
   addr result \<times> state" where
  "transform call self object_stamped target_frame timeout new_type s =
     (case py_type s object_stamped of
        Inl e \<Rightarrow> (Inl e, s)
      | Inr t \<Rightarrow>
     (case TransformRegistration_get (registration self) t s of
        Inl e \<Rightarrow> (Inl e, s)
      | Inr do_transform \<Rightarrow>
     (case header_field s object_stamped ''frame_id'' of
        Inl e \<Rightarrow> (Inl e, s)
      | Inr frame_id \<Rightarrow>
     (case header_field s object_stamped ''stamp'' of
        Inl e \<Rightarrow> (Inl e, s)
      | Inr stamp \<Rightarrow>
     (case lookup_transform self target_frame frame_id stamp timeout s of
        (Inl e, s1) \<Rightarrow> (Inl e, s1)
      | (Inr tf, s1) \<Rightarrow>
     (case call do_transform [object_stamped, tf] s1 of
        (Inl e, s2) \<Rightarrow> (Inl e, s2)
      | (Inr res, s2) \<Rightarrow>
     (case new_type of
        None \<Rightarrow> (Inr res, s2)
      | Some nt \<Rightarrow> convert call res nt s2)))))))"

section \<open>Stamped\<close>

definition Header_cls :: cls where
  "Header_cls = Cls ''std_msgs.msg.Header'' []"

text \<open>\<^verbatim>\<open>Header(frame_id=frame_id, stamp=stamp)\<close>\<close>

definition Header :: "string \<Rightarrow> pyval \<Rightarrow> pyobj" where
  "Header frame_id stamp =
     \<lparr>obj_cls = Header_cls, attrs = [(''stamp'', stamp), (''frame_id'', VStr frame_id)]\<rparr>"

definition Stamped :: "addr \<Rightarrow> pyval \<Rightarrow> string \<Rightarrow> state \<Rightarrow> addr result \<times> state" where
  "Stamped obj stamp frame_id s =
     (let h = length (heap s);
          s1 = s\<lparr>heap := heap s @ [Header frame_id stamp]\<rparr>
      in case setattr obj ''header'' (VRef h) s1 of
           (Inl e, s2) \<Rightarrow> (Inl e, s2)
         | (Inr u, s2) \<Rightarrow> (Inr obj, s2))"

section \<open>A small world for concrete runs\<close>

definition Point_cls :: cls where
  "Point_cls = Cls ''Point'' []"

definition Pose_cls :: cls where
  "Pose_cls = Cls ''Pose'' []"

definition MyPoint_cls :: cls where
  "MyPoint_cls = Cls ''MyPoint'' [Point_cls]"

text \<open>
  Object 0 is a \<open>MyPoint\<close> (a subclass of \<open>Point\<close>) whose header is object 1, object 2
  is a \<open>Pose\<close> and object 3 a transform.
\<close>

definition ex_heap :: "pyobj list" where
  "ex_heap =
     [\<lparr>obj_cls = MyPoint_cls, attrs = [(''header'', VRef 1), (''x'', VInt 3)]\<rparr>,
      \<lparr>obj_cls = Header_cls, attrs = [(''stamp'', VInt 7), (''frame_id'', VStr ''map'')]\<rparr>,
      \<lparr>obj_cls = Pose_cls, attrs = []\<rparr>,
      \<lparr>obj_cls = Cls ''Tf'' [], attrs = []\<rparr>]"

definition ex_state :: state where
  "ex_state =
     \<lparr>heap = ex_heap, type_map = Map.empty, to_msg_map = Map.empty,
      from_msg_map = Map.empty, convert_map = Map.empty\<rparr>"

text \<open>
  Callable 0 raises \<open>TypeException\<close>, callable 1 returns its first argument, callable 2
  returns object 2, every other one raises something else.
\<close>

definition ex_call :: calls where
  "ex_call f args s =
     (if f = 0 then (Inl (TypeException ''no''), s)
      else if f = 1 then (case args of [] \<Rightarrow> (Inl (ExternalError ''arity''), s) | a # _ \<Rightarrow> (Inr a, s))
      else if f = 2 then (Inr 2, s)
      else (Inl (ExternalError ''other''), s))"

text \<open>A buffer whose \<^verbatim>\<open>lookup_transform\<close> always answers with object 3.\<close>

definition ex_buffer :: buffer_interface where
  "ex_buffer = (BufferInterface 5)\<lparr>lookup_transform := (\<lambda>_ _ _ _ s. (Inr 3, s))\<rparr>"

text \<open>
  \<open>ex_bridge\<close>: \<open>MyPoint\<close> has a to-message function (callable 1) and \<open>Pose\<close> a
  from-message function (callable 2). In \<open>ex_to_raises\<close> the to-message function
  raises, in \<open>ex_no_from\<close> there is no from-message function. \<open>ex_direct\<close>: on top
  of \<open>ex_bridge\<close> the pair \<open>(MyPoint, Pose)\<close> has a direct converter, callable 0,
  which raises \<open>TypeException\<close>.
\<close>

definition ex_bridge :: state where
  "ex_bridge = ex_state\<lparr>to_msg_map := [MyPoint_cls \<mapsto> 1], from_msg_map := [Pose_cls \<mapsto> 2]\<rparr>"

definition ex_to_raises :: state where
  "ex_to_raises = ex_state\<lparr>to_msg_map := [MyPoint_cls \<mapsto> 9], from_msg_map := [Pose_cls \<mapsto> 2]\<rparr>"

definition ex_no_from :: state where
  "ex_no_from = ex_state\<lparr>to_msg_map := [MyPoint_cls \<mapsto> 1]\<rparr>"

definition ex_direct :: state where
  "ex_direct = ex_bridge\<lparr>convert_map := [(MyPoint_cls, Pose_cls) \<mapsto> 0]\<rparr>"

text \<open>
  \<open>ex_direct_ok\<close>: the direct converter of \<open>(MyPoint, Pose)\<close> is callable 2, and the
  bridge, were it taken, would give object 0 back. \<open>ex_direct_other\<close>: the direct
  converter raises something that is not a \<open>TypeException\<close>. \<open>ex_direct_point\<close>: the
  pair \<open>(MyPoint, Point)\<close> has the direct converter that raises \<open>TypeException\<close>.
\<close>

definition ex_direct_ok :: state where
  "ex_direct_ok =
     ex_state\<lparr>to_msg_map := [MyPoint_cls \<mapsto> 1], from_msg_map := [Pose_cls \<mapsto> 1],
               convert_map := [(MyPoint_cls, Pose_cls) \<mapsto> 2]\<rparr>"

definition ex_direct_other :: state where
  "ex_direct_other = ex_bridge\<lparr>convert_map := [(MyPoint_cls, Pose_cls) \<mapsto> 9]\<rparr>"

definition ex_direct_point :: state where
  "ex_direct_point = ex_state\<lparr>convert_map := [(MyPoint_cls, Point_cls) \<mapsto> 0]\<rparr>"

text \<open>The store after \<^verbatim>\<open>deepcopy\<close> of object 0: copies of objects 0 and 1 at 4 and 5.\<close>

definition ex_heap_copied :: "pyobj list" where
  "ex_heap_copied =
     ex_heap @
     [\<lparr>obj_cls = MyPoint_cls, attrs = [(''header'', VRef 5), (''x'', VInt 3)]\<rparr>,
      \<lparr>obj_cls = Header_cls, attrs = [(''stamp'', VInt 7), (''frame_id'', VStr ''map'')]\<rparr>]"

text \<open>
  \<open>ex_registered\<close>: \<open>MyPoint\<close> has a transform function, callable 1, which returns the
  object it is given.
\<close>

definition ex_registered :: state where
  "ex_registered = ex_state\<lparr>type_map := [MyPoint_cls \<mapsto> 1]\<rparr>"

section \<open>What a deep copy is\<close>

text \<open>
  A store is closed when every reference kept in an attribute is the address of an
  object of the store, as in every state of a Python program.
\<close>

definition valid_val :: "nat \<Rightarrow> pyval \<Rightarrow> bool" where
  "valid_val n v = (case v of VRef b \<Rightarrow> b < n | _ \<Rightarrow> True)"

definition closed_heap :: "pyobj list \<Rightarrow> bool" where
  "closed_heap H = list_all (\<lambda>ob. list_all (\<lambda>kv. valid_val (length H) (snd kv)) (attrs ob)) H"

text \<open>A value seen through a memo: a reference the memo knows goes to its copy.\<close>

definition rename :: "memo \<Rightarrow> pyval \<Rightarrow> pyval" where
  "rename m v = (case v of VRef c \<Rightarrow> (case m c of Some d \<Rightarrow> VRef d | None \<Rightarrow> VRef c) | _ \<Rightarrow> v)"

definition rename_attrs :: "memo \<Rightarrow> (string \<times> pyval) list \<Rightarrow> (string \<times> pyval) list" where
  "rename_attrs m kvs = map (\<lambda>kv. (fst kv, rename m (snd kv))) kvs"

definition known_val :: "memo \<Rightarrow> pyval \<Rightarrow> bool" where
  "known_val m v = (case v of VRef c \<Rightarrow> m c \<noteq> None | _ \<Rightarrow> True)"

definition refs_known :: "memo \<Rightarrow> (string \<times> pyval) list \<Rightarrow> bool" where
  "refs_known m kvs = list_all (\<lambda>kv. known_val m (snd kv)) kvs"

text \<open>
  \<open>copies H H' m\<close>: \<open>m\<close> maps objects of \<open>H\<close> one-to-one to objects that \<open>H'\<close> has beyond
  \<open>H\<close>; the image of an object has its class and its attributes, in order and with the
  same names, where a value that is not a reference is the same and a reference goes to
  the image of what it referred to.
\<close>

definition copies :: "pyobj list \<Rightarrow> pyobj list \<Rightarrow> memo \<Rightarrow> bool" where
  "copies H H' m =
     (inj_on m (dom m) \<and>
      (\<forall>x y. m x = Some y \<longrightarrow>
         x < length H \<and> length H \<le> y \<and> y < length H' \<and>
         obj_cls (H' ! y) = obj_cls (H ! x) \<and>
         attrs (H' ! y) = rename_attrs m (attrs (H ! x)) \<and>
         refs_known m (attrs (H ! x))))"

text \<open>The objects that can be reached from \<open>a\<close> through attributes.\<close>

inductive reach :: "pyobj list \<Rightarrow> addr \<Rightarrow> addr \<Rightarrow> bool" for H a where
  reach_self: "reach H a a"
| reach_step: "reach H a x \<Longrightarrow> x < length H \<Longrightarrow> (k, VRef y) \<in> set (attrs (H ! x)) \<Longrightarrow> reach H a y"

text \<open>
  The state of a copy in progress: \<open>H0\<close> is the store at the start, \<open>G\<close> the objects
  whose copy exists but has no attributes yet.
\<close>

definition dc_inv :: "pyobj list \<Rightarrow> addr set \<Rightarrow> pyobj list \<Rightarrow> memo \<Rightarrow> bool" where
  "dc_inv H0 G H m =
     (length H0 \<le> length H \<and> take (length H0) H = H0 \<and> inj_on m (dom m) \<and>
      (\<forall>x y. m x = Some y \<longrightarrow>
         x < length H0 \<and> length H0 \<le> y \<and> y < length H \<and>
         (x \<notin> G \<longrightarrow>
            obj_cls (H ! y) = obj_cls (H0 ! x) \<and>
            attrs (H ! y) = rename_attrs m (attrs (H0 ! x)) \<and>
            refs_known m (attrs (H0 ! x)))))"

definition unmemoized :: "pyobj list \<Rightarrow> memo \<Rightarrow> addr set" where
  "unmemoized H0 m = {x. x < length H0 \<and> m x = None}"

section \<open>The registries\<close>

lemmas getter_defs =
  TransformRegistration_get_def get_to_msg_def get_from_msg_def get_convert_def

lemmas adder_defs =
  TransformRegistration_add_def add_to_msg_def add_from_msg_def add_convert_def

lemmas world_defs =
  ex_state_def ex_heap_def ex_call_def ex_buffer_def BufferInterface_def
  Point_cls_def Pose_cls_def MyPoint_cls_def Header_cls_def

text \<open>
  C5. A getter asked for a key that its table does not hold raises \<open>TypeException\<close>
  with the message \<^verbatim>\<open>'Type %s is not loaded or supported' % str(key)\<close>, whatever else
  the table holds and through whichever instance it is asked: it returns no function,
  neither \<open>None\<close> nor a default, and an entry under a base class of the key is not used.
\<close>

theorem getter_absent_key_raises:
  "(type_map s k = None \<longrightarrow>
      TransformRegistration_get i k s =
        Inl (TypeException (''Type '' @ str_cls k @ '' is not loaded or supported''))) \<and>
   (to_msg_map s k = None \<longrightarrow>
      get_to_msg i k s =
        Inl (TypeException (''Type '' @ str_cls k @ '' is not loaded or supported''))) \<and>
   (from_msg_map s k = None \<longrightarrow>
      get_from_msg i k s =
        Inl (TypeException (''Type '' @ str_cls k @ '' is not loaded or supported''))) \<and>
   (convert_map s kk = None \<longrightarrow>
      get_convert i kk s =
        Inl (TypeException (''Type '' @ str_pair kk @ '' is not loaded or supported'')))"
  by (simp add: getter_defs not_loaded_def)

text \<open>
  The four tables hold entries for \<open>Point\<close> (and for the pair \<open>(Point, Pose)\<close>); the key
  \<open>MyPoint\<close>, a subclass of \<open>Point\<close>, is in none of them.
\<close>

theorem getter_absent_key_raises_witness:
  "issubclass MyPoint_cls Point_cls \<and>
   TransformRegistration_get 0 MyPoint_cls
     (ex_state\<lparr>type_map := [Point_cls \<mapsto> 1], to_msg_map := [Point_cls \<mapsto> 1],
               from_msg_map := [Point_cls \<mapsto> 1], convert_map := [(Point_cls, Pose_cls) \<mapsto> 1]\<rparr>) =
     Inl (TypeException (''Type <class '' @ [CHR 0x27] @ ''MyPoint'' @ [CHR 0x27] @ ''> is not loaded or supported'')) \<and>
   get_to_msg 0 MyPoint_cls
     (ex_state\<lparr>type_map := [Point_cls \<mapsto> 1], to_msg_map := [Point_cls \<mapsto> 1],
               from_msg_map := [Point_cls \<mapsto> 1], convert_map := [(Point_cls, Pose_cls) \<mapsto> 1]\<rparr>) =
     Inl (TypeException (''Type <class '' @ [CHR 0x27] @ ''MyPoint'' @ [CHR 0x27] @ ''> is not loaded or supported'')) \<and>
   get_from_msg 0 MyPoint_cls
     (ex_state\<lparr>type_map := [Point_cls \<mapsto> 1], to_msg_map := [Point_cls \<mapsto> 1],
               from_msg_map := [Point_cls \<mapsto> 1], convert_map := [(Point_cls, Pose_cls) \<mapsto> 1]\<rparr>) =
     Inl (TypeException (''Type <class '' @ [CHR 0x27] @ ''MyPoint'' @ [CHR 0x27] @ ''> is not loaded or supported'')) \<and>
   get_convert 0 (MyPoint_cls, Pose_cls)
     (ex_state\<lparr>type_map := [Point_cls \<mapsto> 1], to_msg_map := [Point_cls \<mapsto> 1],
               from_msg_map := [Point_cls \<mapsto> 1], convert_map := [(Point_cls, Pose_cls) \<mapsto> 1]\<rparr>) =
     Inl (TypeException (''Type (<class '' @ [CHR 0x27] @ ''MyPoint'' @ [CHR 0x27] @ ''>, <class ''
        @ [CHR 0x27] @ ''Pose'' @ [CHR 0x27] @ ''>) is not loaded or supported''))"
  using getter_absent_key_raises
    [of "ex_state\<lparr>type_map := [Point_cls \<mapsto> 1], to_msg_map := [Point_cls \<mapsto> 1],
               from_msg_map := [Point_cls \<mapsto> 1], convert_map := [(Point_cls, Pose_cls) \<mapsto> 1]\<rparr>"
        MyPoint_cls 0 "(MyPoint_cls, Pose_cls)"]
  by (simp add: world_defs issubclass_def str_cls_def str_pair_def)

text \<open>
  C6. In each of the four tables a registration returns normally and is an update of
  that table at that key and nothing else: after it the getter of the table gives the
  registered function for the key and, for every other key, exactly what it gave
  before (the same function, or the same exception), so no entry is removed or
  changed; the other three tables and the object store are as they were. After two
  registrations under one key the getter gives the second function.
\<close>

theorem registration_last_write_wins:
  "(fst (TransformRegistration_add i k f s) = Inr () \<and>
    fst (add_to_msg i k f s) = Inr () \<and>
    fst (add_from_msg i k f s) = Inr () \<and>
    fst (add_convert i kk f s) = Inr ()) \<and>
   (TransformRegistration_get j k
      (snd (TransformRegistration_add i2 k f2 (snd (TransformRegistration_add i1 k f1 s)))) = Inr f2 \<and>
    get_to_msg j k (snd (add_to_msg i2 k f2 (snd (add_to_msg i1 k f1 s)))) = Inr f2 \<and>
    get_from_msg j k (snd (add_from_msg i2 k f2 (snd (add_from_msg i1 k f1 s)))) = Inr f2 \<and>
    get_convert j kk (snd (add_convert i2 kk f2 (snd (add_convert i1 kk f1 s)))) = Inr f2) \<and>
   (TransformRegistration_get j k' (snd (TransformRegistration_add i k f s)) =
      (if k' = k then Inr f else TransformRegistration_get j k' s) \<and>
    get_to_msg j k' (snd (add_to_msg i k f s)) =
      (if k' = k then Inr f else get_to_msg j k' s) \<and>
    get_from_msg j k' (snd (add_from_msg i k f s)) =
      (if k' = k then Inr f else get_from_msg j k' s) \<and>
    get_convert j kk' (snd (add_convert i kk f s)) =
      (if kk' = kk then Inr f else get_convert j kk' s)) \<and>
   (to_msg_map (snd (TransformRegistration_add i k f s)) = to_msg_map s \<and>
    from_msg_map (snd (TransformRegistration_add i k f s)) = from_msg_map s \<and>
    convert_map (snd (TransformRegistration_add i k f s)) = convert_map s \<and>
    heap (snd (TransformRegistration_add i k f s)) = heap s) \<and>
   (type_map (snd (add_to_msg i k f s)) = type_map s \<and>
    from_msg_map (snd (add_to_msg i k f s)) = from_msg_map s \<and>
    convert_map (snd (add_to_msg i k f s)) = convert_map s \<and>
    heap (snd (add_to_msg i k f s)) = heap s) \<and>
   (type_map (snd (add_from_msg i k f s)) = type_map s \<and>
    to_msg_map (snd (add_from_msg i k f s)) = to_msg_map s \<and>
    convert_map (snd (add_from_msg i k f s)) = convert_map s \<and>
    heap (snd (add_from_msg i k f s)) = heap s) \<and>
   (type_map (snd (add_convert i kk f s)) = type_map s \<and>
    to_msg_map (snd (add_convert i kk f s)) = to_msg_map s \<and>
    from_msg_map (snd (add_convert i kk f s)) = from_msg_map s \<and>
    heap (snd (add_convert i kk f s)) = heap s)"
proof -
  have returns:
    "fst (TransformRegistration_add i k f s) = Inr () \<and>
     fst (add_to_msg i k f s) = Inr () \<and>
     fst (add_from_msg i k f s) = Inr () \<and>
     fst (add_convert i kk f s) = Inr ()"
    by (simp add: adder_defs)
  have twice:
    "TransformRegistration_get j k
       (snd (TransformRegistration_add i2 k f2 (snd (TransformRegistration_add i1 k f1 s)))) = Inr f2 \<and>
     get_to_msg j k (snd (add_to_msg i2 k f2 (snd (add_to_msg i1 k f1 s)))) = Inr f2 \<and>
     get_from_msg j k (snd (add_from_msg i2 k f2 (snd (add_from_msg i1 k f1 s)))) = Inr f2 \<and>
     get_convert j kk (snd (add_convert i2 kk f2 (snd (add_convert i1 kk f1 s)))) = Inr f2"
    by (simp add: getter_defs adder_defs)
  have per_key:
    "TransformRegistration_get j k' (snd (TransformRegistration_add i k f s)) =
       (if k' = k then Inr f else TransformRegistration_get j k' s) \<and>
     get_to_msg j k' (snd (add_to_msg i k f s)) =
       (if k' = k then Inr f else get_to_msg j k' s) \<and>
     get_from_msg j k' (snd (add_from_msg i k f s)) =
       (if k' = k then Inr f else get_from_msg j k' s) \<and>
     get_convert j kk' (snd (add_convert i kk f s)) =
       (if kk' = kk then Inr f else get_convert j kk' s)"
    by (simp add: getter_defs adder_defs)
  have others:
    "to_msg_map (snd (TransformRegistration_add i k f s)) = to_msg_map s \<and>
     from_msg_map (snd (TransformRegistration_add i k f s)) = from_msg_map s \<and>
     convert_map (snd (TransformRegistration_add i k f s)) = convert_map s \<and>
     heap (snd (TransformRegistration_add i k f s)) = heap s"
    "type_map (snd (add_to_msg i k f s)) = type_map s \<and>
     from_msg_map (snd (add_to_msg i k f s)) = from_msg_map s \<and>
     convert_map (snd (add_to_msg i k f s)) = convert_map s \<and>
     heap (snd (add_to_msg i k f s)) = heap s"
    "type_map (snd (add_from_msg i k f s)) = type_map s \<and>
     to_msg_map (snd (add_from_msg i k f s)) = to_msg_map s \<and>
     convert_map (snd (add_from_msg i k f s)) = convert_map s \<and>
     heap (snd (add_from_msg i k f s)) = heap s"
    "type_map (snd (add_convert i kk f s)) = type_map s \<and>
     to_msg_map (snd (add_convert i kk f s)) = to_msg_map s \<and>
     from_msg_map (snd (add_convert i kk f s)) = from_msg_map s \<and>
     heap (snd (add_convert i kk f s)) = heap s"
    by (simp_all add: adder_defs)
  show ?thesis
    using returns twice per_key others by blast
qed

text \<open>
  A state where \<open>Point\<close> has transform function 4 and to-message function 5. Registering
  function 7 for \<open>Pose\<close> leaves \<open>Point\<close> with function 4 and the to-message function of
  \<open>Point\<close> with 5, and \<open>Pose\<close> now has 7; registering 8 and then 9 for \<open>Point\<close> leaves 9.
\<close>

theorem registration_last_write_wins_witness:
  "TransformRegistration_get 0 Point_cls
     (snd (TransformRegistration_add 1 Pose_cls 7
        (ex_state\<lparr>type_map := [Point_cls \<mapsto> 4], to_msg_map := [Point_cls \<mapsto> 5]\<rparr>))) = Inr 4 \<and>
   TransformRegistration_get 0 Pose_cls
     (snd (TransformRegistration_add 1 Pose_cls 7
        (ex_state\<lparr>type_map := [Point_cls \<mapsto> 4], to_msg_map := [Point_cls \<mapsto> 5]\<rparr>))) = Inr 7 \<and>
   get_to_msg 0 Point_cls
     (snd (TransformRegistration_add 1 Pose_cls 7
        (ex_state\<lparr>type_map := [Point_cls \<mapsto> 4], to_msg_map := [Point_cls \<mapsto> 5]\<rparr>))) = Inr 5 \<and>
   TransformRegistration_get 0 Point_cls
     (snd (TransformRegistration_add 2 Point_cls 9
        (snd (TransformRegistration_add 1 Point_cls 8
           (ex_state\<lparr>type_map := [Point_cls \<mapsto> 4], to_msg_map := [Point_cls \<mapsto> 5]\<rparr>))))) = Inr 9"
proof -
  let ?s = "ex_state\<lparr>type_map := [Point_cls \<mapsto> 4], to_msg_map := [Point_cls \<mapsto> 5]\<rparr>"
  have ne: "Point_cls \<noteq> Pose_cls"
    by (simp add: Point_cls_def Pose_cls_def)
  have before: "TransformRegistration_get 0 Point_cls ?s = Inr 4" "get_to_msg 0 Point_cls ?s = Inr 5"
    by (simp_all add: getter_defs)
  have A: "TransformRegistration_get 0 Point_cls (snd (TransformRegistration_add 1 Pose_cls 7 ?s)) = Inr 4"
    using registration_last_write_wins
      [where j = 0 and k' = Point_cls and i = 1 and k = Pose_cls and f = 7 and s = ?s]
      ne before(1)
    by simp
  have B: "TransformRegistration_get 0 Pose_cls (snd (TransformRegistration_add 1 Pose_cls 7 ?s)) = Inr 7"
    using registration_last_write_wins
      [where j = 0 and k' = Pose_cls and i = 1 and k = Pose_cls and f = 7 and s = ?s]
    by simp
  have "to_msg_map (snd (TransformRegistration_add 1 Pose_cls 7 ?s)) = to_msg_map ?s"
    using registration_last_write_wins [where i = 1 and k = Pose_cls and f = 7 and s = ?s]
    by blast
  then have C: "get_to_msg 0 Point_cls (snd (TransformRegistration_add 1 Pose_cls 7 ?s)) = Inr 5"
    using before(2) by (simp add: get_to_msg_def)
  have D: "TransformRegistration_get 0 Point_cls
      (snd (TransformRegistration_add 2 Point_cls 9 (snd (TransformRegistration_add 1 Point_cls 8 ?s)))) = Inr 9"
    using registration_last_write_wins
      [where j = 0 and k = Point_cls and ?i2.0 = 2 and ?f2.0 = 9 and ?i1.0 = 1 and ?f1.0 = 8 and s = ?s]
    by blast
  show ?thesis
    using A B C D by blast
qed

section \<open>Reads that depend on the store only\<close>

lemma py_type_heap_cong: "heap s' = heap s \<Longrightarrow> py_type s' a = py_type s a"
  by (simp add: py_type_def lookup_obj_def)

lemma getattr_heap_cong: "heap s' = heap s \<Longrightarrow> getattr s' v n = getattr s v n"
  by (simp add: getattr_def lookup_obj_def split: pyval.splits)

lemma header_field_heap_cong: "heap s' = heap s \<Longrightarrow> header_field s' a n = header_field s a n"
  by (simp add: header_field_def getattr_heap_cong [of s' s] split: sum.splits)

lemma heap_add [simp]:
  "heap (snd (TransformRegistration_add i k f s)) = heap s"
  "heap (snd (add_to_msg i k f s)) = heap s"
  "heap (snd (add_from_msg i k f s)) = heap s"
  "heap (snd (add_convert i kk f s)) = heap s"
  by (simp_all add: adder_defs)

text \<open>
  C7. There is one set of four tables in the process. A function registered through
  any instance is what the getter gives through every other instance, among them the
  \<^verbatim>\<open>registration\<close> attribute of any buffer and the instance that \<^verbatim>\<open>convert\<close> makes for
  itself: \<^verbatim>\<open>convert\<close> calls a direct converter that was registered through an instance
  it never saw, and \<^verbatim>\<open>transform\<close> calls the function that was registered through an
  instance other than the buffer's own.
\<close>

theorem registries_shared_by_all_instances:
  "TransformRegistration_get j k (snd (TransformRegistration_add i k f s)) = Inr f \<and>
   TransformRegistration_get (registration b) k (snd (TransformRegistration_add i k f s)) = Inr f \<and>
   get_to_msg j k (snd (add_to_msg i k f s)) = Inr f \<and>
   get_from_msg j k (snd (add_from_msg i k f s)) = Inr f \<and>
   get_convert j kk (snd (add_convert i kk f s)) = Inr f \<and>
   get_to_msg ConvertRegistration_new k (snd (add_to_msg i k f s)) = Inr f \<and>
   get_from_msg ConvertRegistration_new k (snd (add_from_msg i k f s)) = Inr f \<and>
   get_convert ConvertRegistration_new kk (snd (add_convert i kk f s)) = Inr f \<and>
   (py_type s a = Inr ta \<and>
    call f [a] (snd (add_convert i (ta, t) f s)) = (Inr r, sa) \<longrightarrow>
      convert call a t (snd (add_convert i (ta, t) f s)) = (Inr r, sa)) \<and>
   (py_type s a = Inr ta \<and>
    header_field s a ''frame_id'' = Inr fr \<and> header_field s a ''stamp'' = Inr st \<and>
    lookup_transform b target fr st timeout (snd (TransformRegistration_add i ta f s)) = (Inr tf, sa) \<and>
    call f [a, tf] sa = (Inr r, sb) \<longrightarrow>
      transform call b a target timeout None (snd (TransformRegistration_add i ta f s)) = (Inr r, sb))"
proof -
  have getters:
    "TransformRegistration_get j k (snd (TransformRegistration_add i k f s)) = Inr f"
    "get_to_msg j k (snd (add_to_msg i k f s)) = Inr f"
    "get_from_msg j k (snd (add_from_msg i k f s)) = Inr f"
    "get_convert j kk (snd (add_convert i kk f s)) = Inr f"
    for j k kk
    by (simp_all add: getter_defs adder_defs)
  have conv: "convert call a t (snd (add_convert i (ta, t) f s)) = (Inr r, sa)"
    if "py_type s a = Inr ta" "call f [a] (snd (add_convert i (ta, t) f s)) = (Inr r, sa)"
    using that
    by (simp add: convert_def getters py_type_heap_cong [of "snd (add_convert i (ta, t) f s)" s])
  have tr: "transform call b a target timeout None (snd (TransformRegistration_add i ta f s)) = (Inr r, sb)"
    if "py_type s a = Inr ta" "header_field s a ''frame_id'' = Inr fr"
      "header_field s a ''stamp'' = Inr st"
      "lookup_transform b target fr st timeout (snd (TransformRegistration_add i ta f s)) = (Inr tf, sa)"
      "call f [a, tf] sa = (Inr r, sb)"
    using that
    by (simp add: transform_def getters
        py_type_heap_cong [of "snd (TransformRegistration_add i ta f s)" s]
        header_field_heap_cong [of "snd (TransformRegistration_add i ta f s)" s])
  show ?thesis
    using getters conv tr by blast
qed

theorem registries_shared_by_all_instances_witness:
  "convert ex_call 0 Pose_cls (snd (add_convert 3 (MyPoint_cls, Pose_cls) 2 ex_state)) =
     (Inr 2, snd (add_convert 3 (MyPoint_cls, Pose_cls) 2 ex_state)) \<and>
   registration ex_buffer \<noteq> 3 \<and>
   transform ex_call ex_buffer 0 ''base'' VNone None (snd (TransformRegistration_add 3 MyPoint_cls 1 ex_state)) =
     (Inr 0, snd (TransformRegistration_add 3 MyPoint_cls 1 ex_state))"
proof -
  have ty: "py_type ex_state 0 = Inr MyPoint_cls"
    by (simp add: py_type_def lookup_obj_def world_defs)
  have c: "ex_call 2 [0] (snd (add_convert 3 (MyPoint_cls, Pose_cls) 2 ex_state)) =
     (Inr 2, snd (add_convert 3 (MyPoint_cls, Pose_cls) 2 ex_state))"
    by (simp add: ex_call_def)
  have h1: "header_field ex_state 0 ''frame_id'' = Inr (VStr ''map'')"
    by (simp add: header_field_def getattr_def lookup_obj_def world_defs)
  have h2: "header_field ex_state 0 ''stamp'' = Inr (VInt 7)"
    by (simp add: header_field_def getattr_def lookup_obj_def world_defs)
  have l: "lookup_transform ex_buffer ''base'' (VStr ''map'') (VInt 7) VNone
      (snd (TransformRegistration_add 3 MyPoint_cls 1 ex_state)) =
      (Inr 3, snd (TransformRegistration_add 3 MyPoint_cls 1 ex_state))"
    by (simp add: ex_buffer_def)
  have d: "ex_call 1 [0, 3] (snd (TransformRegistration_add 3 MyPoint_cls 1 ex_state)) =
      (Inr 0, snd (TransformRegistration_add 3 MyPoint_cls 1 ex_state))"
    by (simp add: ex_call_def)
  have r: "registration ex_buffer \<noteq> 3"
    by (simp add: ex_buffer_def BufferInterface_def)
  have A: "convert ex_call 0 Pose_cls (snd (add_convert 3 (MyPoint_cls, Pose_cls) 2 ex_state)) =
     (Inr 2, snd (add_convert 3 (MyPoint_cls, Pose_cls) 2 ex_state))"
    using registries_shared_by_all_instances
      [where i = 3 and f = 2 and s = ex_state and a = 0 and ta = MyPoint_cls and call = ex_call
         and t = Pose_cls and r = 2 and sa = "snd (add_convert 3 (MyPoint_cls, Pose_cls) 2 ex_state)"]
      ty c by blast
  have B: "transform ex_call ex_buffer 0 ''base'' VNone None (snd (TransformRegistration_add 3 MyPoint_cls 1 ex_state)) =
     (Inr 0, snd (TransformRegistration_add 3 MyPoint_cls 1 ex_state))"
    using registries_shared_by_all_instances
      [where i = 3 and f = 1 and s = ex_state and a = 0 and ta = MyPoint_cls and call = ex_call
         and b = ex_buffer and fr = "VStr ''map''" and st = "VInt 7" and target = "''base''"
         and timeout = VNone and tf = 3 and r = 0
         and sa = "snd (TransformRegistration_add 3 MyPoint_cls 1 ex_state)"
         and sb = "snd (TransformRegistration_add 3 MyPoint_cls 1 ex_state)"]
      ty h1 h2 l d by blast
  show ?thesis
    using A B r by blast
qed

lemmas ex_states = ex_bridge_def ex_to_raises_def ex_no_from_def ex_direct_def
  ex_direct_ok_def ex_direct_other_def ex_direct_point_def

lemma ex_heaps [simp]:
  "heap ex_state = ex_heap" "heap ex_bridge = ex_heap" "heap ex_to_raises = ex_heap"
  "heap ex_no_from = ex_heap" "heap ex_direct = ex_heap"
  "heap ex_direct_ok = ex_heap" "heap ex_direct_other = ex_heap" "heap ex_direct_point = ex_heap"
  by (simp_all add: ex_states ex_state_def)

lemma ex_type_0: "heap s = ex_heap \<Longrightarrow> py_type s 0 = Inr MyPoint_cls"
  by (simp add: py_type_def lookup_obj_def ex_heap_def)

lemma ex_not_pose: "heap s = ex_heap \<Longrightarrow> \<not> isinstance s 0 Pose_cls"
  by (simp add: isinstance_def issubclass_def lookup_obj_def ex_heap_def
      MyPoint_cls_def Point_cls_def Pose_cls_def)

lemma ex_is_point: "heap s = ex_heap \<Longrightarrow> isinstance s 0 Point_cls"
  by (simp add: isinstance_def issubclass_def lookup_obj_def ex_heap_def
      MyPoint_cls_def Point_cls_def)

lemma ex_cls_neq [simp]:
  "MyPoint_cls \<noteq> Pose_cls" "MyPoint_cls \<noteq> Point_cls" "Point_cls \<noteq> Pose_cls"
  "Pose_cls \<noteq> MyPoint_cls" "Point_cls \<noteq> MyPoint_cls" "Pose_cls \<noteq> Point_cls"
  by (simp_all add: MyPoint_cls_def Point_cls_def Pose_cls_def)

lemma ex_maps [simp]:
  "convert_map ex_state = Map.empty" "to_msg_map ex_state = Map.empty"
  "from_msg_map ex_state = Map.empty" "type_map ex_state = Map.empty"
  "convert_map ex_bridge = Map.empty" "to_msg_map ex_bridge = [MyPoint_cls \<mapsto> 1]"
  "from_msg_map ex_bridge = [Pose_cls \<mapsto> 2]"
  "convert_map ex_to_raises = Map.empty" "to_msg_map ex_to_raises = [MyPoint_cls \<mapsto> 9]"
  "from_msg_map ex_to_raises = [Pose_cls \<mapsto> 2]"
  "convert_map ex_no_from = Map.empty" "to_msg_map ex_no_from = [MyPoint_cls \<mapsto> 1]"
  "from_msg_map ex_no_from = Map.empty"
  "convert_map ex_direct = [(MyPoint_cls, Pose_cls) \<mapsto> 0]"
  "to_msg_map ex_direct = [MyPoint_cls \<mapsto> 1]"
  "from_msg_map ex_direct = [Pose_cls \<mapsto> 2]"
  "convert_map ex_direct_ok = [(MyPoint_cls, Pose_cls) \<mapsto> 2]"
  "to_msg_map ex_direct_ok = [MyPoint_cls \<mapsto> 1]"
  "from_msg_map ex_direct_ok = [Pose_cls \<mapsto> 1]"
  "convert_map ex_direct_other = [(MyPoint_cls, Pose_cls) \<mapsto> 9]"
  "convert_map ex_direct_point = [(MyPoint_cls, Point_cls) \<mapsto> 0]"
  by (simp_all add: ex_states ex_state_def)

lemma ex_calls [simp]:
  "ex_call 0 args s = (Inl (TypeException ''no''), s)"
  "ex_call 1 (a # as) s = (Inr a, s)"
  "ex_call (Suc 0) (a # as) s = (Inr a, s)"
  "ex_call 2 args s = (Inr 2, s)"
  "ex_call 9 args s = (Inl (ExternalError ''other''), s)"
  by (simp_all add: ex_call_def)

lemma ex_deepcopy_0:
  "heap s = ex_heap \<Longrightarrow> deepcopy 0 s = (Inr 4, s\<lparr>heap := ex_heap_copied\<rparr>)"
  by (simp add: deepcopy_def ex_heap_copied_def ex_heap_def eval_nat_numeral Let_def)

section \<open>convert\<close>

lemma convert_no_direct:
  "py_type s a = Inr ta \<Longrightarrow> convert_map s (ta, t) = None \<Longrightarrow>
   convert call a t s = convert_except call ConvertRegistration_new a t s"
  by (simp add: convert_def get_convert_def not_loaded_def)

lemma convert_direct:
  "py_type s a = Inr ta \<Longrightarrow> convert_map s (ta, t) = Some f \<Longrightarrow>
   convert call a t s =
     (case call f [a] s of
        (Inl (TypeException m), sa) \<Rightarrow> convert_except call ConvertRegistration_new a t sa
      | (Inl e, sa) \<Rightarrow> (Inl e, sa)
      | (Inr r, sa) \<Rightarrow> (Inr r, sa))"
  by (simp add: convert_def get_convert_def)

text \<open>
  C3. With no direct converter for \<open>(type(a), b_type)\<close> and \<open>a\<close> not an instance of
  \<open>b_type\<close>: when \<open>type(a)\<close> has a to-message function and \<open>b_type\<close> a from-message
  function, \<^verbatim>\<open>convert\<close> is the from-message function applied to what the to-message
  function returns for \<open>a\<close> (an exception of either propagates); when the to-message
  function is missing, or it is there and the from-message function is missing,
  \<^verbatim>\<open>convert\<close> raises \<open>TypeException\<close> for the missing key and calls nothing.
\<close>

theorem convert_bridge_or_unsupported:
  assumes "py_type s a = Inr ta" and "convert_map s (ta, t) = None" and "\<not> isinstance s a t"
  shows "(to_msg_map s ta = Some f_to \<and> from_msg_map s t = Some f_from \<and>
            call f_to [a] s = (Inr msg, sa) \<longrightarrow>
          convert call a t s = call f_from [msg] sa) \<and>
         (to_msg_map s ta = Some f_to \<and> from_msg_map s t = Some f_from \<and>
            call f_to [a] s = (Inl e, sa) \<longrightarrow>
          convert call a t s = (Inl e, sa)) \<and>
         (to_msg_map s ta = None \<longrightarrow>
          convert call a t s = (Inl (not_loaded (str_cls ta)), s)) \<and>
         (to_msg_map s ta = Some f_to \<and> from_msg_map s t = None \<longrightarrow>
          convert call a t s = (Inl (not_loaded (str_cls t)), s))"
  using assms
  by (simp add: convert_no_direct convert_except_def get_to_msg_def get_from_msg_def)


theorem convert_bridge_or_unsupported_witness:
  "convert ex_call 0 Pose_cls ex_bridge = (Inr 2, ex_bridge) \<and>
   convert ex_call 0 Pose_cls ex_to_raises = (Inl (ExternalError ''other''), ex_to_raises) \<and>
   convert ex_call 0 Pose_cls ex_state = (Inl (not_loaded (str_cls MyPoint_cls)), ex_state) \<and>
   convert ex_call 0 Pose_cls ex_no_from = (Inl (not_loaded (str_cls Pose_cls)), ex_no_from)"
proof -
  have A: "convert ex_call 0 Pose_cls ex_bridge = (Inr 2, ex_bridge)"
    using convert_bridge_or_unsupported
      [where s = ex_bridge and a = 0 and ta = MyPoint_cls and t = Pose_cls and f_to = 1
         and f_from = 2 and call = ex_call and msg = 0 and sa = ex_bridge,
       OF ex_type_0 _ ex_not_pose]
    by simp
  have B: "convert ex_call 0 Pose_cls ex_to_raises = (Inl (ExternalError ''other''), ex_to_raises)"
    using convert_bridge_or_unsupported
      [where s = ex_to_raises and a = 0 and ta = MyPoint_cls and t = Pose_cls and f_to = 9
         and f_from = 2 and call = ex_call and e = "ExternalError ''other''" and sa = ex_to_raises,
       OF ex_type_0 _ ex_not_pose]
    by simp
  have C: "convert ex_call 0 Pose_cls ex_state = (Inl (not_loaded (str_cls MyPoint_cls)), ex_state)"
    using convert_bridge_or_unsupported
      [where s = ex_state and a = 0 and ta = MyPoint_cls and t = Pose_cls and call = ex_call,
       OF ex_type_0 _ ex_not_pose]
    by simp
  have D: "convert ex_call 0 Pose_cls ex_no_from = (Inl (not_loaded (str_cls Pose_cls)), ex_no_from)"
    using convert_bridge_or_unsupported
      [where s = ex_no_from and a = 0 and ta = MyPoint_cls and t = Pose_cls and f_to = 1
         and call = ex_call,
       OF ex_type_0 _ ex_not_pose]
    by simp
  show ?thesis
    using A B C D by blast
qed

text \<open>
  C9. When the direct converter registered for \<open>(type(a), b_type)\<close> raises
  \<open>TypeException\<close> on \<open>a\<close>, \<^verbatim>\<open>convert\<close> does not raise it: the handler runs in the state
  the converter left, and gives the deep copy when \<open>a\<close> is an instance of \<open>b_type\<close>,
  and the message bridge otherwise.
\<close>

theorem convert_swallows_type_exception_of_direct:
  assumes "py_type s a = Inr ta" and "convert_map s (ta, t) = Some f"
    and "call f [a] s = (Inl (TypeException m), sa)"
  shows "(isinstance sa a t \<longrightarrow> convert call a t s = deepcopy a sa) \<and>
         (\<not> isinstance sa a t \<and> py_type sa a = Inr tb \<and>
          to_msg_map sa tb = Some f_to \<and> from_msg_map sa t = Some f_from \<and>
          call f_to [a] sa = (Inr msg, sb) \<longrightarrow>
            convert call a t s = call f_from [msg] sb) \<and>
         (\<not> isinstance sa a t \<and> py_type sa a = Inr tb \<and> to_msg_map sa tb = None \<longrightarrow>
            convert call a t s = (Inl (not_loaded (str_cls tb)), sa))"
  using assms
  by (simp add: convert_direct convert_except_def get_to_msg_def get_from_msg_def)


theorem convert_swallows_type_exception_of_direct_witness:
  "ex_call 0 [0] ex_direct_point = (Inl (TypeException ''no''), ex_direct_point) \<and>
   convert ex_call 0 Point_cls ex_direct_point = (Inr 4, ex_direct_point\<lparr>heap := ex_heap_copied\<rparr>) \<and>
   ex_call 0 [0] ex_direct = (Inl (TypeException ''no''), ex_direct) \<and>
   convert ex_call 0 Pose_cls ex_direct = (Inr 2, ex_direct) \<and>
   convert ex_call 0 Pose_cls (ex_direct\<lparr>to_msg_map := Map.empty\<rparr>) =
     (Inl (not_loaded (str_cls MyPoint_cls)), ex_direct\<lparr>to_msg_map := Map.empty\<rparr>)"
proof -
  have A: "convert ex_call 0 Point_cls ex_direct_point = (Inr 4, ex_direct_point\<lparr>heap := ex_heap_copied\<rparr>)"
    using convert_swallows_type_exception_of_direct
      [where s = ex_direct_point and a = 0 and ta = MyPoint_cls and t = Point_cls and f = 0
         and call = ex_call and m = "''no''" and sa = ex_direct_point, OF ex_type_0]
    by (simp add: ex_is_point ex_deepcopy_0)
  have B: "convert ex_call 0 Pose_cls ex_direct = (Inr 2, ex_direct)"
    using convert_swallows_type_exception_of_direct
      [where s = ex_direct and a = 0 and ta = MyPoint_cls and t = Pose_cls and f = 0
         and call = ex_call and m = "''no''" and sa = ex_direct and tb = MyPoint_cls
         and f_to = 1 and f_from = 2 and msg = 0 and sb = ex_direct, OF ex_type_0]
    by (simp add: ex_not_pose ex_type_0)
  let ?s = "ex_direct\<lparr>to_msg_map := Map.empty\<rparr>"
  have hs: "heap ?s = ex_heap"
    by simp
  have C: "convert ex_call 0 Pose_cls ?s = (Inl (not_loaded (str_cls MyPoint_cls)), ?s)"
    using convert_swallows_type_exception_of_direct
      [where s = ?s and a = 0 and ta = MyPoint_cls and t = Pose_cls and f = 0
         and call = ex_call and m = "''no''" and sa = ?s and tb = MyPoint_cls, OF ex_type_0 [OF hs]]
    by (simp add: ex_not_pose [OF hs] ex_type_0 [OF hs])
  show ?thesis
    using A B C by simp
qed

text \<open>
  When a direct converter is registered for \<open>(type(a), b_type)\<close>, \<^verbatim>\<open>convert\<close> calls it
  on \<open>a\<close>. What it returns is what \<^verbatim>\<open>convert\<close> returns, and an exception of it other
  than \<open>TypeException\<close> is what \<^verbatim>\<open>convert\<close> raises, whatever the to-message and
  from-message tables hold: in these cases the bridge is not taken.
\<close>

lemma convert_prefers_direct:
  assumes "py_type s a = Inr ta" and "convert_map s (ta, t) = Some f"
  shows "(call f [a] s = (Inr r, sa) \<longrightarrow> convert call a t s = (Inr r, sa)) \<and>
         (call f [a] s = (Inl e, sa) \<and> (\<forall>m. e \<noteq> TypeException m) \<longrightarrow>
            convert call a t s = (Inl e, sa))"
  using assms
  by (cases e) (simp_all add: convert_direct)

text \<open>
  In \<open>ex_direct_ok\<close> the direct converter gives object 2 and the bridge would give
  object 0: \<^verbatim>\<open>convert\<close> gives object 2.
\<close>

lemma convert_prefers_direct_example:
  "ex_call 1 [0] ex_direct_ok = (Inr 0, ex_direct_ok) \<and>
   convert ex_call 0 Pose_cls ex_direct_ok = (Inr 2, ex_direct_ok) \<and>
   convert ex_call 0 Pose_cls ex_direct_other = (Inl (ExternalError ''other''), ex_direct_other)"
proof -
  have A: "convert ex_call 0 Pose_cls ex_direct_ok = (Inr 2, ex_direct_ok)"
    using convert_prefers_direct
      [where s = ex_direct_ok and a = 0 and ta = MyPoint_cls and t = Pose_cls and f = 2
         and call = ex_call and r = 2 and sa = ex_direct_ok, OF ex_type_0]
    by simp
  have B: "convert ex_call 0 Pose_cls ex_direct_other = (Inl (ExternalError ''other''), ex_direct_other)"
    using convert_prefers_direct
      [where s = ex_direct_other and a = 0 and ta = MyPoint_cls and t = Pose_cls and f = 9
         and call = ex_call and e = "ExternalError ''other''" and sa = ex_direct_other, OF ex_type_0]
    by simp
  show ?thesis
    using A B by simp
qed

text \<open>
  C2. With a direct converter registered for \<open>(type(a), b_type)\<close>, \<^verbatim>\<open>convert\<close> is to
  use it and never the bridge, also when both message functions are registered. The
  code breaks this where the converter itself raises \<open>TypeException\<close>: the call
  \<^verbatim>\<open>f(a)\<close> stands inside the \<^verbatim>\<open>try\<close> whose handler is written for a converter that is
  not registered, so the handler takes the error of a registered converter for a missing
  one, while every other exception of the same call propagates. In \<open>ex_direct\<close> the
  pair \<open>(MyPoint, Pose)\<close> has a direct converter, it raises \<open>TypeException\<close> on object
  0, and \<^verbatim>\<open>convert\<close> returns object 2: what the from-message function of \<open>Pose\<close> gives
  for the message that the to-message function of \<open>MyPoint\<close> made of object 0.
\<close>

theorem convert_direct_registered_yet_bridge_taken:
  "py_type ex_direct 0 = Inr MyPoint_cls \<and>
   get_convert ConvertRegistration_new (MyPoint_cls, Pose_cls) ex_direct = Inr 0 \<and>
   ex_call 0 [0] ex_direct = (Inl (TypeException ''no''), ex_direct) \<and>
   get_to_msg ConvertRegistration_new MyPoint_cls ex_direct = Inr 1 \<and>
   get_from_msg ConvertRegistration_new Pose_cls ex_direct = Inr 2 \<and>
   ex_call 1 [0] ex_direct = (Inr 0, ex_direct) \<and>
   ex_call 2 [0] ex_direct = (Inr 2, ex_direct) \<and>
   convert ex_call 0 Pose_cls ex_direct = (Inr 2, ex_direct) \<and>
   convert ex_call 0 Pose_cls ex_direct \<noteq> ex_call 0 [0] ex_direct"
  by (simp add: ex_type_0 ex_not_pose getter_defs convert_direct convert_except_def)

section \<open>transform\<close>

lemma ex_registered_facts [simp]:
  "heap ex_registered = ex_heap"
  "type_map ex_registered = [MyPoint_cls \<mapsto> 1]"
  "convert_map ex_registered = Map.empty"
  "to_msg_map ex_registered = Map.empty"
  by (simp_all add: ex_registered_def ex_state_def)

lemma ex_header_0:
  "heap s = ex_heap \<Longrightarrow> header_field s 0 ''frame_id'' = Inr (VStr ''map'')"
  "heap s = ex_heap \<Longrightarrow> header_field s 0 ''stamp'' = Inr (VInt 7)"
  by (simp_all add: header_field_def getattr_def lookup_obj_def ex_heap_def)

lemma ex_buffer_lookup [simp]:
  "lookup_transform ex_buffer target fr st timeout s = (Inr 3, s)"
  "lookup_transform (BufferInterface r) target fr st timeout s = (Inl NotImplementedException, s)"
  by (simp_all add: ex_buffer_def BufferInterface_def)

text \<open>
  C1. \<^verbatim>\<open>transform\<close> first asks the registry for the function of \<open>type(object)\<close>. When
  there is none it raises the \<open>TypeException\<close> for that type and leaves the state as it
  was, whatever the buffer is: no method of the buffer has run. When there is one, the
  buffer's \<^verbatim>\<open>lookup_transform\<close> is called with the target frame, the frame and the stamp
  of the object's header and the timeout; an exception of it propagates; else the
  registered function is called on the object and the transform found, and its result
  is returned as it is when \<open>new_type\<close> is \<open>None\<close>, and given to \<^verbatim>\<open>convert\<close> with
  \<open>new_type\<close> otherwise.
\<close>

theorem transform_dispatch:
  assumes "py_type s a = Inr ta"
  shows "(type_map s ta = None \<longrightarrow>
            transform call b a target timeout nt s = (Inl (not_loaded (str_cls ta)), s)) \<and>
         (type_map s ta = Some f \<and>
          header_field s a ''frame_id'' = Inr fr \<and> header_field s a ''stamp'' = Inr st \<and>
          lookup_transform b target fr st timeout s = (Inr tf, sa) \<and>
          call f [a, tf] sa = (Inr res, sb) \<longrightarrow>
            transform call b a target timeout None s = (Inr res, sb) \<and>
            transform call b a target timeout (Some new_type) s = convert call res new_type sb) \<and>
         (type_map s ta = Some f \<and>
          header_field s a ''frame_id'' = Inr fr \<and> header_field s a ''stamp'' = Inr st \<and>
          lookup_transform b target fr st timeout s = (Inl e, sa) \<longrightarrow>
            transform call b a target timeout nt s = (Inl e, sa)) \<and>
         (type_map s ta = Some f \<and>
          header_field s a ''frame_id'' = Inr fr \<and> header_field s a ''stamp'' = Inr st \<and>
          lookup_transform b target fr st timeout s = (Inr tf, sa) \<and>
          call f [a, tf] sa = (Inl e, sb) \<longrightarrow>
            transform call b a target timeout nt s = (Inl e, sb))"
  using assms
  by (simp add: transform_def TransformRegistration_get_def)

text \<open>
  Object 0 is a \<open>MyPoint\<close>. With nothing registered, \<^verbatim>\<open>transform\<close> raises for the type
  although the buffer's own \<^verbatim>\<open>lookup_transform\<close> would raise something else. With the
  function registered it returns object 0 for \<open>new_type = None\<close>, a copy of it for
  \<open>new_type = Point\<close>, and raises for \<open>new_type = Pose\<close>, to which no conversion leads.
\<close>

theorem transform_dispatch_witness:
  "transform ex_call (BufferInterface 0) 0 ''base'' VNone None ex_state =
     (Inl (not_loaded (str_cls MyPoint_cls)), ex_state) \<and>
   transform ex_call ex_buffer 0 ''base'' VNone None ex_registered = (Inr 0, ex_registered) \<and>
   transform ex_call ex_buffer 0 ''base'' VNone (Some Point_cls) ex_registered =
     (Inr 4, ex_registered\<lparr>heap := ex_heap_copied\<rparr>) \<and>
   transform ex_call ex_buffer 0 ''base'' VNone (Some Pose_cls) ex_registered =
     (Inl (not_loaded (str_cls MyPoint_cls)), ex_registered) \<and>
   transform ex_call (BufferInterface 0) 0 ''base'' VNone None ex_registered =
     (Inl NotImplementedException, ex_registered)"
proof -
  have A: "transform ex_call (BufferInterface 0) 0 ''base'' VNone None ex_state =
     (Inl (not_loaded (str_cls MyPoint_cls)), ex_state)"
    using transform_dispatch
      [where s = ex_state and a = 0 and ta = MyPoint_cls and call = ex_call
         and b = "BufferInterface 0" and target = "''base''" and timeout = VNone and nt = None,
       OF ex_type_0]
    by simp
  have conv_point: "convert ex_call 0 Point_cls ex_registered = (Inr 4, ex_registered\<lparr>heap := ex_heap_copied\<rparr>)"
    by (simp add: convert_no_direct [OF ex_type_0] convert_except_def ex_is_point ex_deepcopy_0)
  have conv_pose: "convert ex_call 0 Pose_cls ex_registered = (Inl (not_loaded (str_cls MyPoint_cls)), ex_registered)"
    by (simp add: convert_no_direct [OF ex_type_0] convert_except_def ex_not_pose ex_type_0
        get_to_msg_def)
  have B: "transform ex_call ex_buffer 0 ''base'' VNone None ex_registered = (Inr 0, ex_registered) \<and>
      transform ex_call ex_buffer 0 ''base'' VNone (Some new_type) ex_registered =
        convert ex_call 0 new_type ex_registered" for new_type
    using transform_dispatch
      [where s = ex_registered and a = 0 and ta = MyPoint_cls and call = ex_call
         and b = ex_buffer and target = "''base''" and timeout = VNone and f = 1
         and fr = "VStr ''map''" and st = "VInt 7" and tf = 3 and sa = ex_registered
         and res = 0 and sb = ex_registered and new_type = new_type,
       OF ex_type_0]
    by (simp add: ex_header_0)
  have C: "transform ex_call (BufferInterface 0) 0 ''base'' VNone None ex_registered =
     (Inl NotImplementedException, ex_registered)"
    using transform_dispatch
      [where s = ex_registered and a = 0 and ta = MyPoint_cls and call = ex_call
         and b = "BufferInterface 0" and target = "''base''" and timeout = VNone and f = 1
         and fr = "VStr ''map''" and st = "VInt 7" and e = NotImplementedException
         and sa = ex_registered and nt = None,
       OF ex_type_0]
    by (simp add: ex_header_0)
  show ?thesis
    using A B [of Point_cls] B [of Pose_cls] C by (simp add: conv_point conv_pose)
qed

section \<open>Stamped\<close>

lemma map_of_set_attr:
  "map_of (set_attr k v kvs) k' = (if k' = k then Some v else map_of kvs k')"
  by (induction kvs) auto

text \<open>
  C8, as the code has it. \<^verbatim>\<open>Stamped(obj, stamp, frame_id)\<close> makes a new \<open>Header\<close> from
  \<open>frame_id\<close> and \<open>stamp\<close>, stores it in the attribute \<open>header\<close> of \<open>obj\<close> itself and
  returns \<open>obj\<close>, the object it was given. It checks nothing and never raises. The
  class and every other attribute of \<open>obj\<close>, every other object that existed and the
  four tables are as before; the store has grown by the new header.
\<close>

theorem Stamped_sets_header_in_place:
  assumes "a < length (heap s)"
  shows "fst (Stamped a stamp frame_id s) = Inr a \<and>
         header_field (snd (Stamped a stamp frame_id s)) a ''frame_id'' = Inr (VStr frame_id) \<and>
         header_field (snd (Stamped a stamp frame_id s)) a ''stamp'' = Inr stamp \<and>
         getattr (snd (Stamped a stamp frame_id s)) (VRef a) ''header'' = Inr (VRef (length (heap s))) \<and>
         length (heap (snd (Stamped a stamp frame_id s))) = Suc (length (heap s)) \<and>
         obj_cls (heap (snd (Stamped a stamp frame_id s)) ! a) = obj_cls (heap s ! a) \<and>
         (\<forall>k. k \<noteq> ''header'' \<longrightarrow>
            map_of (attrs (heap (snd (Stamped a stamp frame_id s)) ! a)) k =
            map_of (attrs (heap s ! a)) k) \<and>
         (\<forall>b. b < length (heap s) \<and> b \<noteq> a \<longrightarrow>
            heap (snd (Stamped a stamp frame_id s)) ! b = heap s ! b) \<and>
         type_map (snd (Stamped a stamp frame_id s)) = type_map s \<and>
         to_msg_map (snd (Stamped a stamp frame_id s)) = to_msg_map s \<and>
         from_msg_map (snd (Stamped a stamp frame_id s)) = from_msg_map s \<and>
         convert_map (snd (Stamped a stamp frame_id s)) = convert_map s"
  using assms
  by (simp add: Stamped_def setattr_def lookup_obj_def Let_def header_field_def getattr_def
      nth_append map_of_set_attr Header_def nth_list_update)

theorem Stamped_sets_header_in_place_witness:
  "fst (Stamped 0 (VInt 9) ''base'' ex_state) = Inr 0 \<and>
   header_field (snd (Stamped 0 (VInt 9) ''base'' ex_state)) 0 ''frame_id'' = Inr (VStr ''base'') \<and>
   header_field (snd (Stamped 0 (VInt 9) ''base'' ex_state)) 0 ''stamp'' = Inr (VInt 9) \<and>
   map_of (attrs (heap (snd (Stamped 0 (VInt 9) ''base'' ex_state)) ! 0)) ''x'' = Some (VInt 3) \<and>
   heap (snd (Stamped 0 (VInt 9) ''base'' ex_state)) ! 1 = ex_heap ! 1"
proof -
  have h: "0 < length (heap ex_state)"
    by (simp add: ex_heap_def)
  show ?thesis
    using Stamped_sets_header_in_place [OF h, of "VInt 9" "''base''"]
    by (simp add: ex_heap_def)
qed

text \<open>
  The claim as it was stated fails on object 0 of \<open>ex_state\<close>: before the call its
  \<open>header\<close> is object 1, after the call the same object 0 has the new object 4 as its
  \<open>header\<close>. The argument has been changed in place.
\<close>

theorem Stamped_mutates_its_argument:
  "getattr ex_state (VRef 0) ''header'' = Inr (VRef 1) \<and>
   fst (Stamped 0 (VInt 9) ''base'' ex_state) = Inr 0 \<and>
   getattr (snd (Stamped 0 (VInt 9) ''base'' ex_state)) (VRef 0) ''header'' = Inr (VRef 4) \<and>
   heap (snd (Stamped 0 (VInt 9) ''base'' ex_state)) ! 0 \<noteq> heap ex_state ! 0"
  by (simp add: Stamped_def setattr_def lookup_obj_def Let_def getattr_def ex_heap_def ex_state_def)

section \<open>deepcopy makes a deep copy\<close>

lemma rename_known_mono:
  "m \<subseteq>\<^sub>m m' \<Longrightarrow> known_val m v \<Longrightarrow> rename m' v = rename m v"
  by (auto simp: rename_def known_val_def map_le_def dom_def split: pyval.splits option.splits)

lemma known_val_mono: "m \<subseteq>\<^sub>m m' \<Longrightarrow> known_val m v \<Longrightarrow> known_val m' v"
  by (auto simp: known_val_def map_le_def dom_def split: pyval.splits)

lemma rename_attrs_mono:
  "m \<subseteq>\<^sub>m m' \<Longrightarrow> refs_known m kvs \<Longrightarrow> rename_attrs m' kvs = rename_attrs m kvs"
  by (induction kvs) (auto simp: rename_attrs_def refs_known_def rename_known_mono)

lemma refs_known_mono:
  "m \<subseteq>\<^sub>m m' \<Longrightarrow> refs_known m kvs \<Longrightarrow> refs_known m' kvs"
  by (induction kvs) (auto simp: refs_known_def known_val_mono)

lemma unmemoized_finite [simp]: "finite (unmemoized H0 m)"
  by (simp add: unmemoized_def)

lemma unmemoized_mono: "m \<subseteq>\<^sub>m m' \<Longrightarrow> card (unmemoized H0 m') \<le> card (unmemoized H0 m)"
proof (rule card_mono)
  assume "m \<subseteq>\<^sub>m m'"
  then show "unmemoized H0 m' \<subseteq> unmemoized H0 m"
    by (auto simp: unmemoized_def map_le_def dom_def)
qed simp

lemma unmemoized_upd:
  assumes "a < length H0" "m a = None"
  shows "card (unmemoized H0 (m(a \<mapsto> b))) < card (unmemoized H0 m)"
proof (rule psubset_card_mono)
  show "unmemoized H0 (m(a \<mapsto> b)) \<subset> unmemoized H0 m"
    using assms by (auto simp: unmemoized_def)
qed simp


lemma dc_invD:
  assumes "dc_inv H0 G H m" and "m x = Some y"
  shows "x < length H0" and "length H0 \<le> y" and "y < length H"
    and "x \<notin> G \<Longrightarrow> obj_cls (H ! y) = obj_cls (H0 ! x)"
    and "x \<notin> G \<Longrightarrow> attrs (H ! y) = rename_attrs m (attrs (H0 ! x))"
    and "x \<notin> G \<Longrightarrow> refs_known m (attrs (H0 ! x))"
  using assms unfolding dc_inv_def by blast+

lemma dc_inv_basic:
  assumes "dc_inv H0 G H m"
  shows "length H0 \<le> length H" and "take (length H0) H = H0" and "inj_on m (dom m)"
  using assms unfolding dc_inv_def by blast+

lemma dc_invI:
  assumes "length H0 \<le> length H" and "take (length H0) H = H0" and "inj_on m (dom m)"
    and "\<And>x y. m x = Some y \<Longrightarrow> x < length H0 \<and> length H0 \<le> y \<and> y < length H"
    and "\<And>x y. m x = Some y \<Longrightarrow> x \<notin> G \<Longrightarrow>
           obj_cls (H ! y) = obj_cls (H0 ! x) \<and>
           attrs (H ! y) = rename_attrs m (attrs (H0 ! x)) \<and>
           refs_known m (attrs (H0 ! x))"
  shows "dc_inv H0 G H m"
  unfolding dc_inv_def using assms by blast

lemma dc_inv_alloc:
  assumes inv: "dc_inv H0 G H m" and a: "a < length H0" and un: "m a = None"
  shows "dc_inv H0 (insert a G) (H @ [p]) (m(a \<mapsto> length H))"
proof (rule dc_invI)
  let ?m = "m(a \<mapsto> length H)"
  have le: "m \<subseteq>\<^sub>m ?m"
    using un by (simp add: map_le_def dom_def)
  show "length H0 \<le> length (H @ [p])"
    using dc_inv_basic(1) [OF inv] by simp
  show "take (length H0) (H @ [p]) = H0"
    using dc_inv_basic(1,2) [OF inv] by simp
  show "inj_on ?m (dom ?m)"
  proof (rule inj_onI)
    fix x y assume xy: "x \<in> dom ?m" "y \<in> dom ?m" "?m x = ?m y"
    show "x = y"
    proof (cases "x = a")
      case xa: True
      show ?thesis
      proof (cases "y = a")
        case True
        with xa show ?thesis by simp
      next
        case False
        then have "m y = Some (length H)"
          using xy(3) xa by simp
        from dc_invD(3) [OF inv this] show ?thesis by simp
      qed
    next
      case xa: False
      show ?thesis
      proof (cases "y = a")
        case True
        then have "m x = Some (length H)"
          using xy(3) xa by simp
        from dc_invD(3) [OF inv this] show ?thesis by simp
      next
        case False
        then have "m x = m y" "x \<in> dom m" "y \<in> dom m"
          using xy xa by simp_all
        then show ?thesis
          using dc_inv_basic(3) [OF inv] by (simp add: inj_on_def)
      qed
    qed
  qed
  show "x < length H0 \<and> length H0 \<le> y \<and> y < length (H @ [p])" if "?m x = Some y" for x y
  proof (cases "x = a")
    case True
    then show ?thesis
      using that a dc_inv_basic(1) [OF inv] by simp
  next
    case False
    then have "m x = Some y"
      using that by simp
    from dc_invD(1-3) [OF inv this] show ?thesis by simp
  qed
  show "obj_cls ((H @ [p]) ! y) = obj_cls (H0 ! x) \<and>
        attrs ((H @ [p]) ! y) = rename_attrs ?m (attrs (H0 ! x)) \<and>
        refs_known ?m (attrs (H0 ! x))" if "?m x = Some y" "x \<notin> insert a G" for x y
  proof -
    have mx: "m x = Some y" and xG: "x \<notin> G"
      using that by simp_all
    have y: "y < length H"
      by (rule dc_invD(3) [OF inv mx])
    have k: "refs_known m (attrs (H0 ! x))"
      by (rule dc_invD(6) [OF inv mx xG])
    show ?thesis
      using dc_invD(4,5) [OF inv mx xG] y
      by (simp add: nth_append rename_attrs_mono [OF le k] refs_known_mono [OF le k])
  qed
qed

lemma dc_inv_finish:
  assumes inv: "dc_inv H0 (insert a G) H m" and ma: "m a = Some b"
    and known: "refs_known m (attrs (H0 ! a))"
  shows "dc_inv H0 G (H[b := (H0 ! a)\<lparr>attrs := rename_attrs m (attrs (H0 ! a))\<rparr>]) m"
proof (rule dc_invI)
  let ?H = "H[b := (H0 ! a)\<lparr>attrs := rename_attrs m (attrs (H0 ! a))\<rparr>]"
  have b: "length H0 \<le> b" "b < length H"
    using dc_invD(2,3) [OF inv ma] by simp_all
  show "length H0 \<le> length ?H"
    using dc_inv_basic(1) [OF inv] by simp
  show "take (length H0) ?H = H0"
    using dc_inv_basic(2) [OF inv] b by simp
  show "inj_on m (dom m)"
    by (rule dc_inv_basic(3) [OF inv])
  show "x < length H0 \<and> length H0 \<le> y \<and> y < length ?H" if "m x = Some y" for x y
    using dc_invD(1-3) [OF inv that] by simp
  show "obj_cls (?H ! y) = obj_cls (H0 ! x) \<and>
        attrs (?H ! y) = rename_attrs m (attrs (H0 ! x)) \<and>
        refs_known m (attrs (H0 ! x))" if mx: "m x = Some y" and xG: "x \<notin> G" for x y
  proof (cases "x = a")
    case True
    then have "y = b"
      using mx ma by simp
    then show ?thesis
      using True b known by simp
  next
    case False
    have "y \<noteq> b"
    proof
      assume "y = b"
      then have "m x = m a" "x \<in> dom m" "a \<in> dom m"
        using mx ma by auto
      then have "x = a"
        using dc_inv_basic(3) [OF inv] by (simp add: inj_on_def)
      with False show False by simp
    qed
    moreover have "x \<notin> insert a G"
      using False xG by simp
    ultimately show ?thesis
      using dc_invD(4-6) [OF inv mx] by simp
  qed
qed


lemma copy_attrs_spec:
  assumes f: "\<And>H m v. dc_inv H0 G H m \<Longrightarrow> valid_val (length H0) v \<Longrightarrow>
                card (unmemoized H0 m) < n \<Longrightarrow>
                \<exists>H' m'. f H m v = Some (H', m', rename m' v) \<and> dc_inv H0 G H' m' \<and>
                  m \<subseteq>\<^sub>m m' \<and> known_val m' v"
  shows "dc_inv H0 G H m \<Longrightarrow> list_all (\<lambda>kv. valid_val (length H0) (snd kv)) kvs \<Longrightarrow>
         card (unmemoized H0 m) < n \<Longrightarrow>
         \<exists>H' m'. copy_attrs f H m kvs = Some (H', m', rename_attrs m' kvs) \<and>
           dc_inv H0 G H' m' \<and> m \<subseteq>\<^sub>m m' \<and> refs_known m' kvs"
proof (induction kvs arbitrary: H m)
  case Nil
  then show ?case
    by (simp add: rename_attrs_def refs_known_def)
next
  case (Cons kv kvs)
  obtain k v where kv: "kv = (k, v)"
    by (cases kv)
  have v: "valid_val (length H0) v" and rest: "list_all (\<lambda>kv. valid_val (length H0) (snd kv)) kvs"
    using Cons.prems(2) kv by simp_all
  from f [OF Cons.prems(1) v Cons.prems(3)] obtain H1 m1 where
    one: "f H m v = Some (H1, m1, rename m1 v)" and inv1: "dc_inv H0 G H1 m1"
    and le1: "m \<subseteq>\<^sub>m m1" and kn1: "known_val m1 v"
    by blast
  have card1: "card (unmemoized H0 m1) < n"
    using unmemoized_mono [OF le1, of H0] Cons.prems(3) by simp
  from Cons.IH [OF inv1 rest card1] obtain H2 m2 where
    two: "copy_attrs f H1 m1 kvs = Some (H2, m2, rename_attrs m2 kvs)"
    and inv2: "dc_inv H0 G H2 m2" and le2: "m1 \<subseteq>\<^sub>m m2" and kn2: "refs_known m2 kvs"
    by blast
  have "copy_attrs f H m (kv # kvs) = Some (H2, m2, rename_attrs m2 (kv # kvs))"
    using one two kv by (simp add: rename_attrs_def rename_known_mono [OF le2 kn1])
  moreover have "m \<subseteq>\<^sub>m m2"
    using le1 le2 by (rule map_le_trans)
  moreover have "refs_known m2 (kv # kvs)"
    using kn2 known_val_mono [OF le2 kn1] kv by (simp add: refs_known_def)
  ultimately show ?case
    using inv2 by blast
qed

lemma closed_heap_attrs:
  "closed_heap H0 \<Longrightarrow> a < length H0 \<Longrightarrow>
   list_all (\<lambda>kv. valid_val (length H0) (snd kv)) (attrs (H0 ! a))"
  by (simp add: closed_heap_def list_all_length)

lemma deepcopy_fuel_spec:
  assumes closed: "closed_heap H0"
  shows "dc_inv H0 G H m \<Longrightarrow> valid_val (length H0) v \<Longrightarrow> card (unmemoized H0 m) < n \<Longrightarrow>
         \<exists>H' m'. deepcopy_fuel n H m v = Some (H', m', rename m' v) \<and> dc_inv H0 G H' m' \<and>
           m \<subseteq>\<^sub>m m' \<and> known_val m' v"
proof (induction n arbitrary: G H m v)
  case 0
  then show ?case by simp
next
  case (Suc n)
  show ?case
  proof (cases v)
    case (VRef a)
    show ?thesis
    proof (cases "m a")
      case (Some b)
      then have "deepcopy_fuel (Suc n) H m v = Some (H, m, rename m v)" "known_val m v"
        using VRef by (simp_all add: rename_def known_val_def)
      then show ?thesis
        using Suc.prems(1) map_le_refl [of m] by blast
    next
      case None
      have a: "a < length H0"
        using Suc.prems(2) VRef by (simp add: valid_val_def)
      then have aH: "a < length H"
        using dc_inv_basic(1) [OF Suc.prems(1)] by simp
      have "H ! a = take (length H0) H ! a"
        using a by simp
      then have ob: "H ! a = H0 ! a"
        using dc_inv_basic(2) [OF Suc.prems(1)] by simp
      let ?ob = "H0 ! a"
      let ?b = "length H"
      let ?H1 = "H @ [?ob\<lparr>attrs := []\<rparr>]"
      let ?m1 = "m(a \<mapsto> ?b)"
      have inv1: "dc_inv H0 (insert a G) ?H1 ?m1"
        by (rule dc_inv_alloc [OF Suc.prems(1) a None])
      have card1: "card (unmemoized H0 ?m1) < n"
        using unmemoized_upd [where a = a and m = m and b = ?b and ?H0.0 = H0, OF a None] Suc.prems(3)
        by simp
      have le1: "m \<subseteq>\<^sub>m ?m1"
        using None by (simp add: map_le_def dom_def)
      from copy_attrs_spec [where f = "deepcopy_fuel n" and G = "insert a G" and ?H0.0 = H0 and n = n,
          OF Suc.IH inv1 closed_heap_attrs [OF closed a] card1]
      obtain H2 m2 where
        cp: "copy_attrs (deepcopy_fuel n) ?H1 ?m1 (attrs ?ob) = Some (H2, m2, rename_attrs m2 (attrs ?ob))"
        and inv2: "dc_inv H0 (insert a G) H2 m2" and le2: "?m1 \<subseteq>\<^sub>m m2"
        and kn2: "refs_known m2 (attrs ?ob)"
        by blast
      have m2a: "m2 a = Some ?b"
        using le2 by (auto simp: map_le_def dom_def)
      let ?H3 = "H2[?b := ?ob\<lparr>attrs := rename_attrs m2 (attrs ?ob)\<rparr>]"
      have inv3: "dc_inv H0 G ?H3 m2"
        by (rule dc_inv_finish [OF inv2 m2a kn2])
      have "deepcopy_fuel (Suc n) H m v = Some (?H3, m2, rename m2 v)"
        using VRef None aH ob cp m2a by (simp add: Let_def rename_def)
      moreover have "m \<subseteq>\<^sub>m m2"
        using le1 le2 by (rule map_le_trans)
      moreover have "known_val m2 v"
        using VRef m2a by (simp add: known_val_def)
      ultimately show ?thesis
        using inv3 by blast
    qed
  qed (use Suc.prems(1) in \<open>simp_all add: rename_def known_val_def\<close>)
qed


lemma dc_inv_start: "dc_inv H0 {} H0 Map.empty"
  by (simp add: dc_inv_def)

lemma dc_inv_copies: "dc_inv H0 {} H' m \<Longrightarrow> copies H0 H' m"
  unfolding dc_inv_def copies_def by blast

lemma copiesD:
  assumes "copies H H' m" and "m x = Some y"
  shows "x < length H" and "length H \<le> y" and "y < length H'"
    and "obj_cls (H' ! y) = obj_cls (H ! x)"
    and "attrs (H' ! y) = rename_attrs m (attrs (H ! x))"
    and "refs_known m (attrs (H ! x))"
  using assms unfolding copies_def by blast+

lemma rename_attrs_ref:
  assumes "(k, VRef y) \<in> set (rename_attrs m kvs)" and "refs_known m kvs"
  shows "\<exists>c. m c = Some y"
proof -
  from assms(1) obtain v where v: "(k, v) \<in> set kvs" "rename m v = VRef y"
    by (auto simp: rename_attrs_def)
  from assms(2) v(1) have "known_val m v"
    by (auto simp: refs_known_def list_all_iff)
  with v(2) show ?thesis
    by (auto simp: rename_def known_val_def split: pyval.splits option.splits)
qed

lemma reach_copy_in_range:
  assumes c: "copies H H' m" and ab: "m a = Some b" and r: "reach H' b x"
  shows "\<exists>c. m c = Some x"
  using r
proof (induction rule: reach.induct)
  case reach_self
  then show ?case using ab by blast
next
  case (reach_step x k y)
  then obtain c0 where c0: "m c0 = Some x"
    by blast
  have "(k, VRef y) \<in> set (rename_attrs m (attrs (H ! c0)))"
    using reach_step.hyps(3) copiesD(5) [OF c c0] by simp
  then show ?case
    using copiesD(6) [OF c c0] by (rule rename_attrs_ref)
qed

lemma deepcopy_correct:
  assumes closed: "closed_heap (heap s)" and a: "a < length (heap s)"
  shows "\<exists>b H' m. deepcopy a s = (Inr b, s\<lparr>heap := H'\<rparr>) \<and> m a = Some b \<and>
           copies (heap s) H' m \<and> take (length (heap s)) H' = heap s \<and>
           (\<forall>x. reach H' b x \<longrightarrow> length (heap s) \<le> x)"
proof -
  let ?H0 = "heap s"
  have v: "valid_val (length ?H0) (VRef a)"
    using a by (simp add: valid_val_def)
  have "card (unmemoized ?H0 Map.empty) \<le> card {..<length ?H0}"
    by (rule card_mono) (auto simp: unmemoized_def)
  then have card: "card (unmemoized ?H0 Map.empty) < Suc (length ?H0)"
    by simp
  from deepcopy_fuel_spec [OF closed dc_inv_start v card] obtain H' m where
    run: "deepcopy_fuel (Suc (length ?H0)) ?H0 Map.empty (VRef a) = Some (H', m, rename m (VRef a))"
    and inv: "dc_inv ?H0 {} H' m" and kn: "known_val m (VRef a)"
    by blast
  from kn obtain b where b: "m a = Some b"
    by (auto simp: known_val_def)
  then have rn: "rename m (VRef a) = VRef b"
    by (simp add: rename_def)
  have c: "copies ?H0 H' m"
    by (rule dc_inv_copies [OF inv])
  have "deepcopy a s = (Inr b, s\<lparr>heap := H'\<rparr>)"
    using run rn by (simp add: deepcopy_def)
  moreover have "take (length ?H0) H' = ?H0"
    by (rule dc_inv_basic(2) [OF inv])
  moreover have "length ?H0 \<le> x" if "reach H' b x" for x
  proof -
    from reach_copy_in_range [OF c b that] obtain c0 where "m c0 = Some x"
      by blast
    then show ?thesis
      by (rule copiesD(2) [OF c])
  qed
  ultimately show ?thesis
    using b c by blast
qed

lemma issubclass_refl: "issubclass c c"
  by (cases c) (simp add: issubclass_def)

lemma py_type_isinstance:
  "py_type s a = Inr ta \<Longrightarrow> isinstance s a t = issubclass ta t"
  by (auto simp: py_type_def isinstance_def split: option.splits)

lemma py_type_live: "py_type s a = Inr ta \<Longrightarrow> a < length (heap s)"
  by (auto simp: py_type_def lookup_obj_def split: if_splits)

lemma convert_identity:
  "py_type s a = Inr ta \<Longrightarrow> convert_map s (ta, t) = None \<Longrightarrow> issubclass ta t \<Longrightarrow>
   convert call a t s = deepcopy a s"
  by (simp add: convert_no_direct convert_except_def py_type_isinstance)

text \<open>
  C4. With no direct converter for \<open>(type(x), T)\<close> and \<open>x\<close> an instance of \<open>T\<close>,
  \<^verbatim>\<open>convert(x, T)\<close> returns an object \<open>b\<close> that did not exist before, so it is not \<open>x\<close>.
  The objects of the input are all as they were, and so are the four tables. There is a
  one-to-one map from objects of the input to new objects that takes \<open>x\<close> to \<open>b\<close> and
  under which every image has the class and the attributes of its original, references
  going to images: \<open>b\<close> is equal in content to \<open>x\<close>. Every object that can be reached from
  \<open>b\<close> is a new one: \<open>b\<close> shares nothing with the input.
\<close>

theorem convert_to_own_type_is_deep_copy:
  assumes "closed_heap (heap s)" and "py_type s a = Inr ta"
    and "convert_map s (ta, t) = None" and "issubclass ta t"
  shows "\<exists>b H' m. convert call a t s = (Inr b, s\<lparr>heap := H'\<rparr>) \<and>
           b \<noteq> a \<and> length (heap s) \<le> b \<and> b < length H' \<and>
           take (length (heap s)) H' = heap s \<and>
           m a = Some b \<and> copies (heap s) H' m \<and>
           (\<forall>x. reach H' b x \<longrightarrow> length (heap s) \<le> x)"
proof -
  have a: "a < length (heap s)"
    by (rule py_type_live [OF assms(2)])
  from deepcopy_correct [OF assms(1) a] obtain b H' m where
    dc: "deepcopy a s = (Inr b, s\<lparr>heap := H'\<rparr>)" and b: "m a = Some b"
    and c: "copies (heap s) H' m" and old: "take (length (heap s)) H' = heap s"
    and fresh: "\<forall>x. reach H' b x \<longrightarrow> length (heap s) \<le> x"
    by blast
  have "convert call a t s = (Inr b, s\<lparr>heap := H'\<rparr>)"
    using convert_identity [OF assms(2,3,4)] dc by simp
  moreover have "length (heap s) \<le> b" "b < length H'"
    using copiesD(2,3) [OF c b] by simp_all
  moreover have "b \<noteq> a"
    using a \<open>length (heap s) \<le> b\<close> by simp
  ultimately show ?thesis
    using b c old fresh by blast
qed


lemma ex_closed: "closed_heap ex_heap"
  by (simp add: closed_heap_def ex_heap_def valid_val_def)

text \<open>
  Object 0 of \<open>ex_state\<close> converted to its own class: the result is the new object 4,
  whose header is the new object 5.
\<close>

theorem convert_to_own_type_is_deep_copy_witness:
  "closed_heap (heap ex_state) \<and> py_type ex_state 0 = Inr MyPoint_cls \<and>
   convert_map ex_state (MyPoint_cls, MyPoint_cls) = None \<and> issubclass MyPoint_cls MyPoint_cls \<and>
   convert ex_call 0 MyPoint_cls ex_state = (Inr 4, ex_state\<lparr>heap := ex_heap_copied\<rparr>) \<and>
   (\<exists>m. m 0 = Some 4 \<and> copies ex_heap ex_heap_copied m \<and>
        (\<forall>x. reach ex_heap_copied 4 x \<longrightarrow> 4 \<le> x))"
proof -
  have h1: "closed_heap (heap ex_state)"
    by (simp add: ex_closed)
  have h2: "py_type ex_state 0 = Inr MyPoint_cls"
    by (simp add: ex_type_0)
  have h3: "convert_map ex_state (MyPoint_cls, MyPoint_cls) = None"
    by simp
  have h4: "issubclass MyPoint_cls MyPoint_cls"
    by (rule issubclass_refl)
  have run: "convert ex_call 0 MyPoint_cls ex_state = (Inr 4, ex_state\<lparr>heap := ex_heap_copied\<rparr>)"
    by (simp add: convert_identity [OF h2 h3 h4] ex_deepcopy_0)
  from convert_to_own_type_is_deep_copy [OF h1 h2 h3 h4, of ex_call] obtain b H' m where
    r: "convert ex_call 0 MyPoint_cls ex_state = (Inr b, ex_state\<lparr>heap := H'\<rparr>)"
    and m: "m 0 = Some b" "copies (heap ex_state) H' m"
    and f: "\<forall>x. reach H' b x \<longrightarrow> length (heap ex_state) \<le> x"
    by blast
  have "heap (ex_state\<lparr>heap := H'\<rparr>) = heap (ex_state\<lparr>heap := ex_heap_copied\<rparr>)"
    using r run by simp
  then have H': "H' = ex_heap_copied"
    by simp
  have b: "b = 4"
    using r run by simp
  have len: "length ex_heap = 4"
    by (simp add: ex_heap_def)
  have "m 0 = Some 4 \<and> copies ex_heap ex_heap_copied m \<and>
        (\<forall>x. reach ex_heap_copied 4 x \<longrightarrow> 4 \<le> x)"
    using m f by (simp add: H' b len)
  then show ?thesis
    using h1 h2 h3 h4 run by blast
qed

text \<open>
  C10. The lookups are by exact key, the test before the copy is \<^verbatim>\<open>isinstance\<close>: an
  object whose class is a proper subclass of \<open>b_type\<close>, with no direct converter for the
  pair, is deep-copied by \<^verbatim>\<open>convert\<close>. The result is a new object of the class of the
  source, and no to-message function is looked up: the call succeeds also where the
  getter would raise for the class of the source.
\<close>

theorem convert_copies_instance_of_subclass:
  assumes "closed_heap (heap s)" and "py_type s a = Inr ta" and "ta \<noteq> t" and "issubclass ta t"
    and "convert_map s (ta, t) = None"
  shows "convert call a t s = deepcopy a s \<and>
         (\<exists>b H' m. convert call a t s = (Inr b, s\<lparr>heap := H'\<rparr>) \<and>
            length (heap s) \<le> b \<and> py_type (s\<lparr>heap := H'\<rparr>) b = Inr ta \<and>
            take (length (heap s)) H' = heap s \<and> m a = Some b \<and> copies (heap s) H' m) \<and>
         (to_msg_map s ta = None \<longrightarrow>
            get_to_msg ConvertRegistration_new ta s = Inl (not_loaded (str_cls ta)))"
proof -
  have a: "a < length (heap s)"
    by (rule py_type_live [OF assms(2)])
  have ta: "obj_cls (heap s ! a) = ta"
    using assms(2) a by (simp add: py_type_def lookup_obj_def)
  have eq: "convert call a t s = deepcopy a s"
    by (rule convert_identity [OF assms(2,5,4)])
  from deepcopy_correct [OF assms(1) a] obtain b H' m where
    dc: "deepcopy a s = (Inr b, s\<lparr>heap := H'\<rparr>)" and b: "m a = Some b"
    and c: "copies (heap s) H' m" and old: "take (length (heap s)) H' = heap s"
    by blast
  have "py_type (s\<lparr>heap := H'\<rparr>) b = Inr ta"
    using copiesD(3,4) [OF c b] ta by (simp add: py_type_def lookup_obj_def)
  moreover have "length (heap s) \<le> b"
    by (rule copiesD(2) [OF c b])
  ultimately have "\<exists>b H' m. convert call a t s = (Inr b, s\<lparr>heap := H'\<rparr>) \<and>
            length (heap s) \<le> b \<and> py_type (s\<lparr>heap := H'\<rparr>) b = Inr ta \<and>
            take (length (heap s)) H' = heap s \<and> m a = Some b \<and> copies (heap s) H' m"
    using eq dc b c old by auto
  then show ?thesis
    using eq by (simp add: get_to_msg_def)
qed

text \<open>
  Object 0 is a \<open>MyPoint\<close>, a proper subclass of \<open>Point\<close>, and \<open>ex_state\<close> has no
  registration at all: \<^verbatim>\<open>convert\<close> to \<open>Point\<close> gives the copy, a \<open>MyPoint\<close>.
\<close>

theorem convert_copies_instance_of_subclass_witness:
  "closed_heap (heap ex_state) \<and> py_type ex_state 0 = Inr MyPoint_cls \<and>
   MyPoint_cls \<noteq> Point_cls \<and> issubclass MyPoint_cls Point_cls \<and>
   convert_map ex_state (MyPoint_cls, Point_cls) = None \<and> to_msg_map ex_state MyPoint_cls = None \<and>
   get_to_msg ConvertRegistration_new MyPoint_cls ex_state = Inl (not_loaded (str_cls MyPoint_cls)) \<and>
   convert ex_call 0 Point_cls ex_state = (Inr 4, ex_state\<lparr>heap := ex_heap_copied\<rparr>) \<and>
   py_type (ex_state\<lparr>heap := ex_heap_copied\<rparr>) 4 = Inr MyPoint_cls"
proof -
  have h1: "closed_heap (heap ex_state)"
    by (simp add: ex_closed)
  have h2: "py_type ex_state 0 = Inr MyPoint_cls"
    by (simp add: ex_type_0)
  have h3: "MyPoint_cls \<noteq> Point_cls"
    by simp
  have h4: "issubclass MyPoint_cls Point_cls"
    by (simp add: issubclass_def MyPoint_cls_def Point_cls_def)
  have h5: "convert_map ex_state (MyPoint_cls, Point_cls) = None"
    by simp
  have dc: "deepcopy 0 ex_state = (Inr 4, ex_state\<lparr>heap := ex_heap_copied\<rparr>)"
    by (simp add: ex_deepcopy_0)
  have ty: "py_type (ex_state\<lparr>heap := ex_heap_copied\<rparr>) 4 = Inr MyPoint_cls"
    by (simp add: py_type_def lookup_obj_def ex_heap_copied_def ex_heap_def)
  show ?thesis
    using convert_copies_instance_of_subclass [OF h1 h2 h3 h4 h5, of ex_call] h1 h2 h3 h4 dc ty
    by simp
qed

end
